theory Spec2Isabelle
  imports Complex_Main "HOL-Library.Word"
begin

section \<open>The material sandbox: constants and the parameter record\<close>

text \<open>
  The sources are two snapshots of the web sandbox sample (\<^verbatim>\<open>samples/web/sandbox.cpp\<close>
  and an earlier, self-contained snapshot, called \<^emph>\<open>part 000\<close> below) and a compiled
  fragment shader. C++ \<^verbatim>\<open>float\<close> and \<^verbatim>\<open>double\<close> values are modelled as \<^typ>\<open>real\<close>: the code
  only stores, compares and forwards them. Pointers to engine objects are handles
  (natural numbers); a null pointer is \<^term>\<open>None\<close>.
\<close>

subsection \<open>The COMMON block\<close>

definition MATERIAL_MODEL_UNLIT :: "8 word" where "MATERIAL_MODEL_UNLIT = 0"
definition MATERIAL_MODEL_LIT :: "8 word" where "MATERIAL_MODEL_LIT = 1"
definition MATERIAL_MODEL_SUBSURFACE :: "8 word" where "MATERIAL_MODEL_SUBSURFACE = 2"
definition MATERIAL_MODEL_CLOTH :: "8 word" where "MATERIAL_MODEL_CLOTH = 3"

definition MATERIAL_UNLIT :: "8 word" where "MATERIAL_UNLIT = 0"
definition MATERIAL_LIT :: "8 word" where "MATERIAL_LIT = 1"
definition MATERIAL_SUBSURFACE :: "8 word" where "MATERIAL_SUBSURFACE = 2"
definition MATERIAL_CLOTH :: "8 word" where "MATERIAL_CLOTH = 3"
definition MATERIAL_TRANSPARENT :: "8 word" where "MATERIAL_TRANSPARENT = 4"
definition MATERIAL_FADE :: "8 word" where "MATERIAL_FADE = 5"
definition MATERIAL_COUNT :: "8 word" where "MATERIAL_COUNT = 6"

definition BLENDING_OPAQUE :: "8 word" where "BLENDING_OPAQUE = 0"
definition BLENDING_TRANSPARENT :: "8 word" where "BLENDING_TRANSPARENT = 1"
definition BLENDING_FADE :: "8 word" where "BLENDING_FADE = 2"

type_synonym sRGBColor = "real \<times> real \<times> real"
type_synonym float3 = "real \<times> real \<times> real"
type_synonym Entity = nat
type_synonym MaterialInstance = nat

text \<open>
  \<^verbatim>\<open>struct SandboxParameters\<close>. The fields up to \<open>directionalLightEnabled\<close> are the COMMON
  block of part 000 (which spells the last one \<^verbatim>\<open>directional_light_enabled\<close>). The
  web sandbox takes the struct from \<^verbatim>\<open>material_sandbox.h\<close>, which is not among the
  sources; \<^verbatim>\<open>sandbox.cpp\<close> uses three more of its fields, \<open>hasDirectionalLight\<close>,
  \<open>light\<close> and the array \<open>materialInstance\<close>, which are the last three fields here (the
  array as a function of the index). The \<^verbatim>\<open>int\<close> fields hold small combo indices and are
  modelled as \<^typ>\<open>int\<close>; the \<^verbatim>\<open>uint8_t\<close> constants are promoted with \<^term>\<open>uint\<close> where the code
  compares them with an \<^verbatim>\<open>int\<close>.
\<close>

record SandboxParameters =
  color :: sRGBColor
  alpha :: real
  roughness :: real
  metallic :: real
  reflectance :: real
  clearCoat :: real
  clearCoatRoughness :: real
  anisotropy :: real
  thickness :: real
  subsurfacePower :: real
  subsurfaceColor :: sRGBColor
  sheenColor :: sRGBColor
  currentMaterialModel :: int
  currentBlending :: int
  castShadows :: bool
  lightColor :: sRGBColor
  lightIntensity :: real
  lightDirection :: float3
  iblIntensity :: real
  iblRotation :: real
  sunHaloSize :: real
  sunHaloFalloff :: real
  sunAngularRadius :: real
  directionalLightEnabled :: bool
  hasDirectionalLight :: bool
  light :: Entity
  materialInstance :: "nat \<Rightarrow> MaterialInstance"

text \<open>
  The default member initialisers of the COMMON block. The initial values of the three
  fields declared only in \<^verbatim>\<open>material_sandbox.h\<close> are parameters.
\<close>

definition default_params ::
  "bool \<Rightarrow> Entity \<Rightarrow> (nat \<Rightarrow> MaterialInstance) \<Rightarrow> SandboxParameters" where
  "default_params has0 light0 mis0 =
    \<lparr> color = (0.69, 0.69, 0.69),
      alpha = 1.0,
      roughness = 0.6,
      metallic = 0.0,
      reflectance = 0.5,
      clearCoat = 0.0,
      clearCoatRoughness = 0.0,
      anisotropy = 0.0,
      thickness = 1.0,
      subsurfacePower = 12.234,
      subsurfaceColor = (0.0, 0.0, 0.0),
      sheenColor = (0.83, 0.0, 0.0),
      currentMaterialModel = uint MATERIAL_MODEL_LIT,
      currentBlending = uint BLENDING_OPAQUE,
      castShadows = True,
      lightColor = (0.98, 0.92, 0.89),
      lightIntensity = 110000.0,
      lightDirection = (0.6, -1.0, -0.8),
      iblIntensity = 30000.0,
      iblRotation = 0.0,
      sunHaloSize = 10.0,
      sunHaloFalloff = 80.0,
      sunAngularRadius = 1.9,
      directionalLightEnabled = True,
      hasDirectionalLight = has0,
      light = light0,
      materialInstance = mis0 \<rparr>"

section \<open>The immediate-mode widgets\<close>

text \<open>
  What the user does to the widgets during one frame: which collapsing headers are open,
  and at most one event per widget. The GUI library identifies a widget by its label, so
  the frame's input is keyed by label.
\<close>

datatype widget_event =
    Picked nat
  | Dragged real
  | Dragged3 float3
  | Edited sRGBColor
  | Clicked

record frame_input =
  header_open :: "string \<Rightarrow> bool"
  events :: "string \<Rightarrow> widget_event option"

text \<open>
  Modelled from the spec: \<^verbatim>\<open>ImGui::SliderFloat\<close> (the GUI library is not among the
  sources). "Sliders clamp values": a drag stores the dragged value clamped to the
  slider's range, and a frame without a drag leaves the variable alone.
\<close>

definition SliderFloat :: "widget_event option \<Rightarrow> real \<Rightarrow> real \<Rightarrow> real \<Rightarrow> real" where
  "SliderFloat ev v v_min v_max =
    (case ev of Some (Dragged x) \<Rightarrow> min v_max (max v_min x) | _ \<Rightarrow> v)"

text \<open>
  Modelled from the spec: \<^verbatim>\<open>ImGui::SliderFloat3\<close>, three sliders with one range over the
  three components.
\<close>

definition SliderFloat3 :: "widget_event option \<Rightarrow> float3 \<Rightarrow> real \<Rightarrow> real \<Rightarrow> float3" where
  "SliderFloat3 ev v v_min v_max =
    (case ev of
       Some (Dragged3 (x, y, z)) \<Rightarrow>
         (min v_max (max v_min x), min v_max (max v_min y), min v_max (max v_min z))
     | _ \<Rightarrow> v)"

text \<open>
  Modelled from the spec: \<^verbatim>\<open>ImGui::SliderAngle\<close>. Its range is a default argument
  declared in the missing GUI header, so the model stores the dragged angle as it is.
\<close>

definition SliderAngle :: "widget_event option \<Rightarrow> real \<Rightarrow> real" where
  "SliderAngle ev v = (case ev of Some (Dragged x) \<Rightarrow> x | _ \<Rightarrow> v)"

text \<open>
  Modelled from the spec: \<^verbatim>\<open>ImGui::Combo\<close> over a zero-separated item string; picking
  an item stores its index. The items are the list the item string encodes.
\<close>

definition Combo :: "widget_event option \<Rightarrow> int \<Rightarrow> string list \<Rightarrow> int" where
  "Combo ev current_item items =
    (case ev of
       Some (Picked i) \<Rightarrow> if i < length items then int i else current_item
     | _ \<Rightarrow> current_item)"

text \<open>Modelled from the spec: \<^verbatim>\<open>ImGui::ColorEdit3\<close> and \<^verbatim>\<open>ImGui::Checkbox\<close>.\<close>

definition ColorEdit3 :: "widget_event option \<Rightarrow> sRGBColor \<Rightarrow> sRGBColor" where
  "ColorEdit3 ev col = (case ev of Some (Edited c) \<Rightarrow> c | _ \<Rightarrow> col)"

definition Checkbox :: "widget_event option \<Rightarrow> bool \<Rightarrow> bool" where
  "Checkbox ev v = (case ev of Some Clicked \<Rightarrow> \<not> v | _ \<Rightarrow> v)"

definition CollapsingHeader :: "frame_input \<Rightarrow> string \<Rightarrow> bool" where
  "CollapsingHeader inp label = header_open inp label"

definition model_items :: "string list" where
  "model_items = [''unlit'', ''lit'', ''subsurface'', ''cloth'']"

definition blending_items :: "string list" where
  "blending_items = [''opaque'', ''transparent'', ''fade'']"

section \<open>The widget block of \<^verbatim>\<open>ui\<close>\<close>

text \<open>
  The block between \<^verbatim>\<open>ImGui::Begin\<close> and \<^verbatim>\<open>ImGui::End\<close> is the same in both snapshots,
  but for the "Debug" header of part 000, which edits the engine's debug registry through
  pointers and never touches the parameter record.
\<close>

definition ui_material_sliders :: "frame_input \<Rightarrow> SandboxParameters \<Rightarrow> SandboxParameters" where
  "ui_material_sliders inp p0 =
    (let p1 = (if currentBlending p0 = uint BLENDING_TRANSPARENT \<or>
                  currentBlending p0 = uint BLENDING_FADE
               then p0\<lparr>alpha := SliderFloat (events inp ''alpha'') (alpha p0) 0.0 1.0\<rparr>
               else p0);
         p2 = p1\<lparr>roughness := SliderFloat (events inp ''roughness'') (roughness p1) 0.0 1.0\<rparr>;
         p3 = (if currentMaterialModel p2 \<noteq> uint MATERIAL_MODEL_CLOTH
               then p2\<lparr>metallic := SliderFloat (events inp ''metallic'') (metallic p2) 0.0 1.0,
                       reflectance :=
                         SliderFloat (events inp ''reflectance'') (reflectance p2) 0.0 1.0\<rparr>
               else p2);
         p4 = (if currentMaterialModel p3 \<noteq> uint MATERIAL_MODEL_CLOTH \<and>
                  currentMaterialModel p3 \<noteq> uint MATERIAL_MODEL_SUBSURFACE
               then p3\<lparr>clearCoat := SliderFloat (events inp ''clearCoat'') (clearCoat p3) 0.0 1.0,
                       clearCoatRoughness :=
                         SliderFloat (events inp ''clearCoatRoughness'')
                           (clearCoatRoughness p3) 0.0 1.0,
                       anisotropy :=
                         SliderFloat (events inp ''anisotropy'') (anisotropy p3) (-1.0) 1.0\<rparr>
               else p3);
         p5 = (if currentMaterialModel p4 = uint MATERIAL_MODEL_SUBSURFACE
               then p4\<lparr>thickness := SliderFloat (events inp ''thickness'') (thickness p4) 0.0 1.0,
                       subsurfacePower :=
                         SliderFloat (events inp ''subsurfacePower'') (subsurfacePower p4) 1.0 24.0,
                       subsurfaceColor :=
                         ColorEdit3 (events inp ''subsurfaceColor'') (subsurfaceColor p4)\<rparr>
               else p4);
         p6 = (if currentMaterialModel p5 = uint MATERIAL_MODEL_CLOTH
               then p5\<lparr>sheenColor := ColorEdit3 (events inp ''sheenColor'') (sheenColor p5),
                       subsurfaceColor :=
                         ColorEdit3 (events inp ''subsurfaceColor'') (subsurfaceColor p5)\<rparr>
               else p5)
     in p6)"

definition ui_material :: "frame_input \<Rightarrow> SandboxParameters \<Rightarrow> SandboxParameters" where
  "ui_material inp p0 =
    (let p1 = p0\<lparr>currentMaterialModel :=
                  Combo (events inp ''model'') (currentMaterialModel p0) model_items\<rparr>;
         p2 = (if currentMaterialModel p1 = uint MATERIAL_MODEL_LIT
               then p1\<lparr>currentBlending :=
                         Combo (events inp ''blending'') (currentBlending p1) blending_items\<rparr>
               else p1);
         p3 = p2\<lparr>color := ColorEdit3 (events inp ''baseColor'') (color p2)\<rparr>
     in if currentMaterialModel p3 > uint MATERIAL_MODEL_UNLIT
        then ui_material_sliders inp p3 else p3)"

definition ui_object :: "frame_input \<Rightarrow> SandboxParameters \<Rightarrow> SandboxParameters" where
  "ui_object inp p = p\<lparr>castShadows := Checkbox (events inp ''castShadows'') (castShadows p)\<rparr>"

definition ui_light :: "frame_input \<Rightarrow> SandboxParameters \<Rightarrow> SandboxParameters" where
  "ui_light inp p =
    p\<lparr>directionalLightEnabled :=
        Checkbox (events inp ''enabled'') (directionalLightEnabled p),
      lightColor := ColorEdit3 (events inp ''color'') (lightColor p),
      lightIntensity := SliderFloat (events inp ''lux'') (lightIntensity p) 0.0 150000.0,
      lightDirection :=
        SliderFloat3 (events inp ''direction'') (lightDirection p) (-1.0) 1.0,
      sunAngularRadius :=
        SliderFloat (events inp ''sunSize'') (sunAngularRadius p) 0.1 10.0,
      sunHaloSize := SliderFloat (events inp ''haloSize'') (sunHaloSize p) 1.01 40.0,
      sunHaloFalloff :=
        SliderFloat (events inp ''haloFalloff'') (sunHaloFalloff p) 0.0 2048.0,
      iblIntensity := SliderFloat (events inp ''ibl'') (iblIntensity p) 0.0 50000.0,
      iblRotation := SliderAngle (events inp ''ibl rotation'') (iblRotation p)\<rparr>"

definition ui_widgets :: "frame_input \<Rightarrow> SandboxParameters \<Rightarrow> SandboxParameters" where
  "ui_widgets inp p0 =
    (let p1 = (if CollapsingHeader inp ''Material'' then ui_material inp p0 else p0);
         p2 = (if CollapsingHeader inp ''Object'' then ui_object inp p1 else p1);
         p3 = (if CollapsingHeader inp ''Light'' then ui_light inp p2 else p2)
     in p3)"

text \<open>
  The ranges the sliders of \<^verbatim>\<open>ui\<close> are created with, as a predicate on the record: the
  second and third number of each \<^verbatim>\<open>SliderFloat\<close> and \<^verbatim>\<open>SliderFloat3\<close> call.
\<close>

definition in_interval :: "real \<Rightarrow> real \<Rightarrow> real \<Rightarrow> bool" where
  "in_interval v_min v_max v = (v_min \<le> v \<and> v \<le> v_max)"

definition in_interval3 :: "real \<Rightarrow> real \<Rightarrow> float3 \<Rightarrow> bool" where
  "in_interval3 v_min v_max v =
    (case v of
       (x, y, z) \<Rightarrow>
         in_interval v_min v_max x \<and> in_interval v_min v_max y \<and> in_interval v_min v_max z)"

definition in_range :: "SandboxParameters \<Rightarrow> bool" where
  "in_range p =
    (in_interval 0.0 1.0 (alpha p) \<and>
     in_interval 0.0 1.0 (roughness p) \<and>
     in_interval 0.0 1.0 (metallic p) \<and>
     in_interval 0.0 1.0 (reflectance p) \<and>
     in_interval 0.0 1.0 (clearCoat p) \<and>
     in_interval 0.0 1.0 (clearCoatRoughness p) \<and>
     in_interval (-1.0) 1.0 (anisotropy p) \<and>
     in_interval 0.0 1.0 (thickness p) \<and>
     in_interval 1.0 24.0 (subsurfacePower p) \<and>
     in_interval 0.0 150000.0 (lightIntensity p) \<and>
     in_interval3 (-1.0) 1.0 (lightDirection p) \<and>
     in_interval 0.1 10.0 (sunAngularRadius p) \<and>
     in_interval 1.01 40.0 (sunHaloSize p) \<and>
     in_interval 0.0 2048.0 (sunHaloFalloff p) \<and>
     in_interval 0.0 50000.0 (iblIntensity p))"

section \<open>Double arithmetic\<close>

text \<open>
  The one computation of the code whose result need not be a number is the division in
  \<^verbatim>\<open>animate\<close>. A \<^verbatim>\<open>double\<close> is a finite value, an infinity or NaN; the rounding of finite
  values is not modelled. \<open>double_divide x y\<close> is the quotient of two finite doubles whose
  divisor, when zero, is the positive zero that a conversion from an unsigned integer
  gives: a division by zero does not trap, it yields an infinity, or NaN for 0 / 0.
  \<open>double_less d y\<close> is the comparison \<^verbatim>\<open>d < y\<close> with a finite \<open>y\<close>, which is false for NaN.
\<close>

datatype double = Finite real | PlusInfinity | MinusInfinity | NaN

definition double_divide :: "real \<Rightarrow> real \<Rightarrow> double" where
  "double_divide x y =
    (if y = 0 then (if x = 0 then NaN else if 0 < x then PlusInfinity else MinusInfinity)
     else Finite (x / y))"

definition double_less :: "double \<Rightarrow> real \<Rightarrow> bool" where
  "double_less d y =
    (case d of
       Finite x \<Rightarrow> x < y
     | PlusInfinity \<Rightarrow> False
     | MinusInfinity \<Rightarrow> True
     | NaN \<Rightarrow> False)"

section \<open>Calls into the engine\<close>

text \<open>
  The setters the callbacks invoke on engine objects, in the order they are issued. The
  object a call is made on is part of the call.
\<close>

type_synonym Camera = nat
type_synonym Scene = nat
type_synonym SkyLight = nat
type_synonym Asset = nat

datatype Fov = VERTICAL | HORIZONTAL

datatype parameter_value = Float real | RgbType_sRGB sRGBColor

datatype engine_call =
    SetParameter MaterialInstance string parameter_value
  | SetProjection Camera real double real real Fov
  | SetTransform Entity real
  | SetMaterialInstanceAt Entity nat MaterialInstance
  | SetCastShadows Entity bool
  | AddEntity Scene Entity
  | Remove Scene Entity
  | SetIntensity SkyLight real
  | SetRotation SkyLight real

text \<open>
  What the code does not guard against and what ends a callback: a call through a null
  pointer.
\<close>

datatype fault = NullPointer

section \<open>Part 000: pushing the record into the material instance\<close>

text \<open>The local variable \<^verbatim>\<open>material\<close> of \<^verbatim>\<open>ui\<close>.\<close>

definition material :: "SandboxParameters \<Rightarrow> int" where
  "material params =
    (let m0 = currentMaterialModel params in
     if m0 = uint MATERIAL_MODEL_LIT
     then (let m1 = (if currentBlending params = uint BLENDING_TRANSPARENT
                     then uint MATERIAL_TRANSPARENT else m0);
               m2 = (if currentBlending params = uint BLENDING_FADE
                     then uint MATERIAL_FADE else m1)
           in m2)
     else m0)"

text \<open>
  \<^verbatim>\<open>MaterialInstance* materialInstance = app.mi; // params.materialInstance[material]\<close>:
  part 000 has one material instance, and the index computed above is not used.
\<close>

definition materialInstance_part000 :: "MaterialInstance \<Rightarrow> SandboxParameters \<Rightarrow> MaterialInstance" where
  "materialInstance_part000 app_mi params = (let m = material params in app_mi)"

definition push_unlit :: "MaterialInstance \<Rightarrow> SandboxParameters \<Rightarrow> engine_call list" where
  "push_unlit mi params = [SetParameter mi ''baseColor'' (RgbType_sRGB (color params))]"

definition push_lit :: "MaterialInstance \<Rightarrow> SandboxParameters \<Rightarrow> engine_call list" where
  "push_lit mi params =
    [SetParameter mi ''baseColor'' (RgbType_sRGB (color params)),
     SetParameter mi ''roughness'' (Float (roughness params)),
     SetParameter mi ''metallic'' (Float (metallic params)),
     SetParameter mi ''reflectance'' (Float (reflectance params)),
     SetParameter mi ''clearCoat'' (Float (clearCoat params)),
     SetParameter mi ''clearCoatRoughness'' (Float (clearCoatRoughness params)),
     SetParameter mi ''anisotropy'' (Float (anisotropy params))] @
    (if currentBlending params \<noteq> uint BLENDING_OPAQUE
     then [SetParameter mi ''alpha'' (Float (alpha params))] else [])"

definition push_subsurface :: "MaterialInstance \<Rightarrow> SandboxParameters \<Rightarrow> engine_call list" where
  "push_subsurface mi params =
    [SetParameter mi ''baseColor'' (RgbType_sRGB (color params)),
     SetParameter mi ''roughness'' (Float (roughness params)),
     SetParameter mi ''metallic'' (Float (metallic params)),
     SetParameter mi ''reflectance'' (Float (reflectance params)),
     SetParameter mi ''thickness'' (Float (thickness params)),
     SetParameter mi ''subsurfacePower'' (Float (subsurfacePower params)),
     SetParameter mi ''subsurfaceColor'' (RgbType_sRGB (subsurfaceColor params))]"

definition push_cloth :: "MaterialInstance \<Rightarrow> SandboxParameters \<Rightarrow> engine_call list" where
  "push_cloth mi params =
    [SetParameter mi ''baseColor'' (RgbType_sRGB (color params)),
     SetParameter mi ''roughness'' (Float (roughness params)),
     SetParameter mi ''sheenColor'' (RgbType_sRGB (sheenColor params)),
     SetParameter mi ''subsurfaceColor'' (RgbType_sRGB (subsurfaceColor params))]"

text \<open>The four \<^verbatim>\<open>if\<close> statements that end \<^verbatim>\<open>ui\<close> in part 000, one after the other.\<close>

definition push_part000 :: "MaterialInstance \<Rightarrow> SandboxParameters \<Rightarrow> engine_call list" where
  "push_part000 mi params =
    (if currentMaterialModel params = uint MATERIAL_MODEL_UNLIT then push_unlit mi params else []) @
    (if currentMaterialModel params = uint MATERIAL_MODEL_LIT then push_lit mi params else []) @
    (if currentMaterialModel params = uint MATERIAL_MODEL_SUBSURFACE
     then push_subsurface mi params else []) @
    (if currentMaterialModel params = uint MATERIAL_MODEL_CLOTH then push_cloth mi params else [])"

text \<open>
  \<^verbatim>\<open>ui\<close> of part 000, given the instance \<^verbatim>\<open>app.mi\<close> that its \<^verbatim>\<open>setup\<close> created: the calls
  issued and the record after the frame.
\<close>

definition ui_part000 ::
  "MaterialInstance \<Rightarrow> frame_input \<Rightarrow> SandboxParameters \<Rightarrow> engine_call list \<times> SandboxParameters" where
  "ui_part000 app_mi inp params0 =
    (let params = ui_widgets inp params0
     in (push_part000 (materialInstance_part000 app_mi params) params, params))"

section \<open>The web sandbox\<close>

subsection \<open>State\<close>

record Mesh =
  renderable :: Entity

text \<open>
  \<^verbatim>\<open>struct SandboxApp\<close> of \<^verbatim>\<open>sandbox.cpp\<close>. The static \<^verbatim>\<open>app\<close> starts with null handles and a
  default-initialised parameter record.
\<close>

record SandboxApp =
  filamesh :: "Mesh option"
  cam :: "Camera option"
  params :: SandboxParameters
  skylight :: "SkyLight option"
  scene :: "Scene option"

text \<open>
  Everything the callbacks keep between calls: the static \<^verbatim>\<open>app\<close>, the function-local
  statics \<^verbatim>\<open>previous\<close> (of \<^verbatim>\<open>animate\<close>) and \<^verbatim>\<open>mesh\<close> (of \<^verbatim>\<open>setup\<close>), which are \<^term>\<open>None\<close>
  until their declaration is first reached, and, on the engine's side, the entities of
  the scene that \<^verbatim>\<open>setup\<close> received.
\<close>

record world =
  app :: SandboxApp
  previous :: "real option"
  mesh :: "Asset option"
  scene_entities :: "Entity set"

definition app0 :: "bool \<Rightarrow> Entity \<Rightarrow> (nat \<Rightarrow> MaterialInstance) \<Rightarrow> SandboxApp" where
  "app0 has0 light0 mis0 =
    \<lparr> filamesh = None, cam = None, params = default_params has0 light0 mis0,
      skylight = None, scene = None \<rparr>"

definition world0 :: "bool \<Rightarrow> Entity \<Rightarrow> (nat \<Rightarrow> MaterialInstance) \<Rightarrow> world" where
  "world0 has0 light0 mis0 =
    \<lparr> app = app0 has0 light0 mis0, previous = None, mesh = None, scene_entities = {} \<rparr>"

text \<open>
  What the engine, the asset layer and \<^verbatim>\<open>material_sandbox.h\<close> hand back to the callbacks.
  \<^verbatim>\<open>createInstances\<close> and \<^verbatim>\<open>updateInstances\<close> are declared in that header and are
  parameters: the first receives the record by reference, the second receives it and
  returns the material instance to draw with, together with the engine calls it makes.
\<close>

record engine =
  the_scene :: Scene
  getRawFile :: "string \<Rightarrow> Asset"
  decodeMesh :: "Asset \<Rightarrow> MaterialInstance \<Rightarrow> Mesh"
  getSkyLight :: "string \<Rightarrow> SkyLight"
  createCamera :: Camera
  getPrimitiveCount :: "Entity \<Rightarrow> nat"
  createInstances :: "SandboxParameters \<Rightarrow> SandboxParameters"
  updateInstances :: "SandboxParameters \<Rightarrow> engine_call list \<times> MaterialInstance"

subsection \<open>\<^verbatim>\<open>setup\<close>\<close>

definition set_x :: "real \<Rightarrow> real \<times> real \<times> real \<Rightarrow> real \<times> real \<times> real" where
  "set_x v t = (case t of (x, y, z) \<Rightarrow> (v, y, z))"

definition set_y :: "real \<Rightarrow> real \<times> real \<times> real \<Rightarrow> real \<times> real \<times> real" where
  "set_y v t = (case t of (x, y, z) \<Rightarrow> (x, v, z))"

definition set_z :: "real \<Rightarrow> real \<times> real \<times> real \<Rightarrow> real \<times> real \<times> real" where
  "set_z v t = (case t of (x, y, z) \<Rightarrow> (x, y, v))"

text \<open>The eleven assignments to \<^verbatim>\<open>app.params\<close> that open \<^verbatim>\<open>setup\<close>.\<close>

definition setup_params :: "SandboxParameters \<Rightarrow> SandboxParameters" where
  "setup_params p0 =
    (let p1 = p0\<lparr>iblIntensity := 10000.0\<rparr>;
         p2 = p1\<lparr>lightDirection := set_x 0 (lightDirection p1)\<rparr>;
         p3 = p2\<lparr>lightDirection := set_y 0 (lightDirection p2)\<rparr>;
         p4 = p3\<lparr>lightDirection := set_z (-1) (lightDirection p3)\<rparr>;
         p5 = p4\<lparr>iblRotation := pi\<rparr>;
         p6 = p5\<lparr>clearCoat := 0.7\<rparr>;
         p7 = p6\<lparr>metallic := 0.25\<rparr>;
         p8 = p7\<lparr>reflectance := 0.75\<rparr>;
         p9 = p8\<lparr>color := set_x (158 / 255.0) (color p8)\<rparr>;
         p10 = p9\<lparr>color := set_y (118 / 255.0) (color p9)\<rparr>;
         p11 = p10\<lparr>color := set_z (74 / 255.0) (color p10)\<rparr>
     in p11)"

text \<open>
  \<^verbatim>\<open>setup\<close> (a reserved word here, hence \<open>sandbox_setup\<close>). The exposure, the camera of
  the view, the manipulator, the indirect light and the skybox are set on engine objects
  that no callback reads back; they leave no trace in the state.
\<close>

definition sandbox_setup :: "engine \<Rightarrow> world \<Rightarrow> world" where
  "sandbox_setup eng w0 =
    (let a1 = (app w0)\<lparr>scene := Some (the_scene eng)\<rparr>;
         a2 = a1\<lparr>params := setup_params (params a1)\<rparr>;
         a3 = a2\<lparr>params := createInstances eng (params a2)\<rparr>;
         mesh1 = (case mesh w0 of None \<Rightarrow> getRawFile eng ''mesh'' | Some m \<Rightarrow> m);
         mi = materialInstance (params a3) (unat MATERIAL_LIT);
         a4 = a3\<lparr>filamesh := Some (decodeMesh eng mesh1 mi)\<rparr>;
         ents1 = insert (renderable (decodeMesh eng mesh1 mi)) (scene_entities w0);
         ents2 = insert (light (params a4)) ents1;
         a5 = a4\<lparr>skylight := Some (getSkyLight eng ''pillars_2k'')\<rparr>;
         a6 = a5\<lparr>cam := Some (createCamera eng)\<rparr>
     in w0\<lparr>app := a6, mesh := Some mesh1, scene_entities := ents2\<rparr>)"

subsection \<open>\<^verbatim>\<open>animate\<close>\<close>

record Viewport =
  width :: "32 word"
  height :: "32 word"

text \<open>
  \<^verbatim>\<open>double ratio = double(width) / height;\<close> Both operands are converted to \<^verbatim>\<open>double\<close>, which
  holds every 32-bit value exactly. The code has no test of \<^verbatim>\<open>height\<close>.
\<close>

definition ratio :: "32 word \<Rightarrow> 32 word \<Rightarrow> double" where
  "ratio w h = double_divide (real (unat w)) (real (unat h))"

text \<open>The camera adjustment, which is the same in both snapshots.\<close>

definition adjust_camera :: "Camera option \<Rightarrow> Viewport \<Rightarrow> fault + engine_call list" where
  "adjust_camera c vp =
    (let r = ratio (width vp) (height vp)
     in case c of
          None \<Rightarrow> Inl NullPointer
        | Some camera \<Rightarrow>
            Inr [SetProjection camera 45.0 r 0.1 50.0
                   (if double_less r 1 then HORIZONTAL else VERTICAL)])"

definition animate :: "Viewport \<Rightarrow> real \<Rightarrow> world \<Rightarrow> fault + engine_call list \<times> world" where
  "animate vp now w =
    (let w1 = w\<lparr>previous := Some (case previous w of None \<Rightarrow> now | Some t \<Rightarrow> t)\<rparr>
     in case adjust_camera (cam (app w1)) vp of
          Inl e \<Rightarrow> Inl e
        | Inr calls \<Rightarrow> Inr (calls, w1))"

text \<open>
  \<^verbatim>\<open>animate\<close> of part 000 also spins the object; its camera and its mesh are arguments.
\<close>

definition animate_part000 ::
  "Camera option \<Rightarrow> Mesh option \<Rightarrow> Viewport \<Rightarrow> real \<Rightarrow> fault + engine_call list" where
  "animate_part000 c m vp now =
    (case adjust_camera c vp of
       Inl e \<Rightarrow> Inl e
     | Inr calls \<Rightarrow>
         (case m of
            None \<Rightarrow> Inl NullPointer
          | Some msh \<Rightarrow> Inr (calls @ [SetTransform (renderable msh) now])))"

subsection \<open>\<^verbatim>\<open>ui\<close>\<close>

text \<open>The \<^verbatim>\<open>if\<close> / \<^verbatim>\<open>else if\<close> that adds the sun to the scene or removes it.\<close>

definition sync_directional_light ::
  "Scene option \<Rightarrow> SandboxParameters \<Rightarrow> Entity set \<Rightarrow>
     fault + engine_call list \<times> SandboxParameters \<times> Entity set" where
  "sync_directional_light sc p ents =
    (if directionalLightEnabled p \<and> \<not> hasDirectionalLight p then
       (case sc of
          None \<Rightarrow> Inl NullPointer
        | Some s \<Rightarrow>
            Inr ([AddEntity s (light p)], p\<lparr>hasDirectionalLight := True\<rparr>, insert (light p) ents))
     else if \<not> directionalLightEnabled p \<and> hasDirectionalLight p then
       (case sc of
          None \<Rightarrow> Inl NullPointer
        | Some s \<Rightarrow>
            Inr ([Remove s (light p)], p\<lparr>hasDirectionalLight := False\<rparr>, ents - {light p}))
     else Inr ([], p, ents))"

definition ui :: "engine \<Rightarrow> frame_input \<Rightarrow> world \<Rightarrow> fault + engine_call list \<times> world" where
  "ui eng inp w =
    (let p1 = ui_widgets inp (params (app w));
         upd = updateInstances eng p1
     in case filamesh (app w) of
          None \<Rightarrow> Inl NullPointer
        | Some m \<Rightarrow>
            (let c2 = map (\<lambda>i. SetMaterialInstanceAt (renderable m) i (snd upd))
                        [0 ..< getPrimitiveCount eng (renderable m)];
                 c3 = [SetCastShadows (renderable m) (castShadows p1)]
             in case sync_directional_light (scene (app w)) p1 (scene_entities w) of
                  Inl e \<Rightarrow> Inl e
                | Inr (c4, p2, ents) \<Rightarrow>
                    (case skylight (app w) of
                       None \<Rightarrow> Inl NullPointer
                     | Some sky \<Rightarrow>
                         Inr (fst upd @ c2 @ c3 @ c4 @
                                [SetIntensity sky (iblIntensity p2),
                                 SetRotation sky (iblRotation p2)],
                              w\<lparr>app := (app w)\<lparr>params := p2\<rparr>, scene_entities := ents\<rparr>))))"

section \<open>Part 000: the state\<close>

type_synonym Material = nat

text \<open>
  \<^verbatim>\<open>struct SandboxApp\<close> of part 000 (the fields carry the suffix \<open>_000\<close> to keep them apart
  from those of the web sandbox). Its parameter record is the COMMON block; the three
  further fields of \<^typ>\<open>SandboxParameters\<close> are not used.
\<close>

record SandboxApp_000 =
  filamesh_000 :: "Mesh option"
  mat_000 :: "Material option"
  mi_000 :: "MaterialInstance option"
  cam_000 :: "Camera option"
  sun_000 :: "Entity option"
  params_000 :: SandboxParameters

record world_000 =
  app_000 :: SandboxApp_000
  previous_000 :: "real option"
  mesh_000 :: "Asset option"
  scene_entities_000 :: "Entity set"

definition world0_000 :: world_000 where
  "world0_000 =
    \<lparr> app_000 =
        \<lparr> filamesh_000 = None, mat_000 = None, mi_000 = None, cam_000 = None, sun_000 = None,
          params_000 = default_params True 0 (\<lambda>i. 0) \<rparr>,
      previous_000 = None, mesh_000 = None, scene_entities_000 = {} \<rparr>"

text \<open>What the engine and the asset layer hand back to \<^verbatim>\<open>setup\<close> of part 000.\<close>

record engine_000 =
  build_000 :: Material
  createInstance_000 :: "Material \<Rightarrow> MaterialInstance"
  getRawFile_000 :: "string \<Rightarrow> Asset"
  decodeMesh_000 :: "Asset \<Rightarrow> MaterialInstance \<Rightarrow> Mesh"
  create_000 :: Entity
  createCamera_000 :: Camera

text \<open>
  \<^verbatim>\<open>setup\<close> of part 000: it builds the one material and its instance, decodes the mesh with
  that instance, creates the sun with constant parameters and adds both entities to the
  scene, and creates the camera. The skylight is a local variable. As for the web
  sandbox, the values set on engine objects that no callback reads back are left out.
\<close>

definition setup_000 :: "engine_000 \<Rightarrow> world_000 \<Rightarrow> world_000" where
  "setup_000 eng w0 =
    (let a1 = (app_000 w0)\<lparr>mat_000 := Some (build_000 eng)\<rparr>;
         a2 = a1\<lparr>mi_000 := Some (createInstance_000 eng (build_000 eng))\<rparr>;
         mesh1 = (case mesh_000 w0 of None \<Rightarrow> getRawFile_000 eng ''mesh'' | Some m \<Rightarrow> m);
         msh = decodeMesh_000 eng mesh1 (createInstance_000 eng (build_000 eng));
         a3 = a2\<lparr>filamesh_000 := Some msh\<rparr>;
         ents1 = insert (renderable msh) (scene_entities_000 w0);
         a4 = a3\<lparr>sun_000 := Some (create_000 eng)\<rparr>;
         ents2 = insert (create_000 eng) ents1;
         a5 = a4\<lparr>cam_000 := Some (createCamera_000 eng)\<rparr>
     in w0\<lparr>app_000 := a5, mesh_000 := Some mesh1, scene_entities_000 := ents2\<rparr>)"

text \<open>
  \<^verbatim>\<open>animate\<close> and \<^verbatim>\<open>ui\<close> of part 000 on this state. \<^verbatim>\<open>ui\<close> calls through \<^verbatim>\<open>app.mi\<close> only where one
  of its four \<^verbatim>\<open>if\<close> statements pushes something.
\<close>

definition animate_000 :: "Viewport \<Rightarrow> real \<Rightarrow> world_000 \<Rightarrow> fault + engine_call list \<times> world_000" where
  "animate_000 vp now w =
    (let w1 = w\<lparr>previous_000 := Some (case previous_000 w of None \<Rightarrow> now | Some t \<Rightarrow> t)\<rparr>
     in case animate_part000 (cam_000 (app_000 w1)) (filamesh_000 (app_000 w1)) vp now of
          Inl e \<Rightarrow> Inl e
        | Inr calls \<Rightarrow> Inr (calls, w1))"

definition ui_000 :: "frame_input \<Rightarrow> world_000 \<Rightarrow> fault + engine_call list \<times> world_000" where
  "ui_000 inp w =
    (let p1 = ui_widgets inp (params_000 (app_000 w));
         w1 = w\<lparr>app_000 := (app_000 w)\<lparr>params_000 := p1\<rparr>\<rparr>
     in case mi_000 (app_000 w) of
          Some app_mi \<Rightarrow> Inr (fst (ui_part000 app_mi inp (params_000 (app_000 w))), w1)
        | None \<Rightarrow> if push_part000 0 p1 = [] then Inr ([], w1) else Inl NullPointer)"

section \<open>The frame loop\<close>

text \<open>
  Modelled from the spec: \<^verbatim>\<open>filaweb::Application::run\<close>, which \<^verbatim>\<open>launch\<close> calls with the
  three callbacks and which is not among the sources. "Single-threaded, cooperatively
  driven by an external engine's frame callback (setup once, then animate/draw-UI every
  frame)": one call of the first callback, then, frame after frame, the second and the
  third, each on the state the previous call left.
\<close>

fun run_frames :: "('f \<Rightarrow> 's \<Rightarrow> 's) \<Rightarrow> ('f \<Rightarrow> 's \<Rightarrow> 's) \<Rightarrow> 'f list \<Rightarrow> 's \<Rightarrow> 's" where
  "run_frames animate_cb ui_cb [] s = s"
| "run_frames animate_cb ui_cb (f # fs) s = run_frames animate_cb ui_cb fs (ui_cb f (animate_cb f s))"

definition run ::
  "('s \<Rightarrow> 's) \<Rightarrow> ('f \<Rightarrow> 's \<Rightarrow> 's) \<Rightarrow> ('f \<Rightarrow> 's \<Rightarrow> 's) \<Rightarrow> 'f list \<Rightarrow> 's \<Rightarrow> 's" where
  "run setup_cb animate_cb ui_cb frames s = run_frames animate_cb ui_cb frames (setup_cb s)"

text \<open>Callbacks that only record that they were invoked, and for which frame.\<close>

datatype 'f invocation = Setup_called | Animate_called 'f | Ui_called 'f

definition note_setup :: "'f invocation list \<Rightarrow> 'f invocation list" where
  "note_setup l = l @ [Setup_called]"

definition note_animate :: "'f \<Rightarrow> 'f invocation list \<Rightarrow> 'f invocation list" where
  "note_animate f l = l @ [Animate_called f]"

definition note_ui :: "'f \<Rightarrow> 'f invocation list \<Rightarrow> 'f invocation list" where
  "note_ui f l = l @ [Ui_called f]"

text \<open>
  \<^verbatim>\<open>launch\<close> of \<^verbatim>\<open>sandbox.cpp\<close>: the three callbacks of the web sandbox under \<^term>\<open>run\<close>. A frame
  brings the viewport, the time and the user's input; a fault ends the run.
\<close>

record frame =
  frame_viewport :: Viewport
  frame_now :: real
  frame_events :: frame_input

type_synonym run_state = "fault + engine_call list \<times> world"

definition setup_callback :: "engine \<Rightarrow> run_state \<Rightarrow> run_state" where
  "setup_callback eng st =
    (case st of Inl e \<Rightarrow> Inl e | Inr (calls, w) \<Rightarrow> Inr (calls, sandbox_setup eng w))"

definition animate_callback :: "frame \<Rightarrow> run_state \<Rightarrow> run_state" where
  "animate_callback f st =
    (case st of
       Inl e \<Rightarrow> Inl e
     | Inr (calls, w) \<Rightarrow>
         (case animate (frame_viewport f) (frame_now f) w of
            Inl e \<Rightarrow> Inl e
          | Inr (c, w1) \<Rightarrow> Inr (calls @ c, w1)))"

definition ui_callback :: "engine \<Rightarrow> frame \<Rightarrow> run_state \<Rightarrow> run_state" where
  "ui_callback eng f st =
    (case st of
       Inl e \<Rightarrow> Inl e
     | Inr (calls, w) \<Rightarrow>
         (case ui eng (frame_events f) w of
            Inl e \<Rightarrow> Inl e
          | Inr (c, w1) \<Rightarrow> Inr (calls @ c, w1)))"

definition launch :: "engine \<Rightarrow> frame list \<Rightarrow> world \<Rightarrow> run_state" where
  "launch eng frames w =
    run (setup_callback eng) animate_callback (ui_callback eng) frames (Inr ([], w))"

text \<open>
  Two predicates on the state of the web sandbox: every handle of \<^verbatim>\<open>app\<close> has been set, and
  the sun is an entity of the scene exactly when the record's flag says so.
\<close>

definition initialised :: "world \<Rightarrow> bool" where
  "initialised w =
    (filamesh (app w) \<noteq> None \<and> cam (app w) \<noteq> None \<and> skylight (app w) \<noteq> None \<and>
     scene (app w) \<noteq> None)"

definition light_synced :: "world \<Rightarrow> bool" where
  "light_synced w =
    ((light (params (app w)) \<in> scene_entities w) = hasDirectionalLight (params (app w)))"

section \<open>The fragment shader\<close>

text \<open>
  The shader's inputs: the bound texture arrays (four textures each) seen through the one
  sampler, and the two interpolated coordinates. \<open>uTexture s i P\<close> is
  \<^verbatim>\<open>texture(sampler2D(uTexture[i], uSampler), P)\<close>, \<open>uTexture_size s i lod\<close> is
  \<^verbatim>\<open>vec2(textureSize(sampler2D(uTexture[i], uSampler), lod))\<close>, and likewise for the array,
  cube and 3D textures. The vector types and their arithmetic are left open: \<open>'c2\<close> is
  \<^verbatim>\<open>vec2\<close>, \<open>'c3\<close> is \<^verbatim>\<open>vec3\<close>, \<open>'v\<close> is \<^verbatim>\<open>vec4\<close>, and \<open>1\<close> is \<^verbatim>\<open>vec2(1.0)\<close>.
\<close>

record ('c2, 'c3, 'v) fragment_input =
  uTexture :: "nat \<Rightarrow> 'c2 \<Rightarrow> 'v"
  uTexture_size :: "nat \<Rightarrow> int \<Rightarrow> 'c2"
  uTextureArray :: "nat \<Rightarrow> 'c3 \<Rightarrow> 'v"
  uTextureCube :: "nat \<Rightarrow> 'c3 \<Rightarrow> 'v"
  uTexture3D :: "nat \<Rightarrow> 'c3 \<Rightarrow> 'v"
  vTex :: 'c2
  vTex3 :: 'c3

text \<open>The directive \<^verbatim>\<open>#version 310 es\<close>.\<close>

definition shader_version :: "nat \<times> string" where
  "shader_version = (310, ''es'')"

text \<open>The temporary \<^verbatim>\<open>_95\<close> and the value \<^verbatim>\<open>main\<close> writes to \<^verbatim>\<open>FragColor\<close>.\<close>

definition shader_tmp95 :: "('c2::{one,plus,inverse}, 'c3, 'v) fragment_input \<Rightarrow> 'c2" where
  "shader_tmp95 s = (vTex s + (1 / uTexture_size s 1 0)) + (1 / uTexture_size s 2 1)"

definition shader_main :: "('c2::{one,plus,inverse}, 'c3, 'v::plus) fragment_input \<Rightarrow> 'v" where
  "shader_main s =
    (let t95 = shader_tmp95 s
     in ((((uTexture s 2 t95 + uTexture s 1 t95) + uTexture s 1 t95) +
           uTextureArray s 3 (vTex3 s)) + uTextureCube s 1 (vTex3 s)) +
         uTexture3D s 2 (vTex3 s))"

section \<open>Concrete inputs\<close>

text \<open>
  An engine, a state after \<^verbatim>\<open>setup\<close> and a few frames of user input, at which the theorems
  below are instantiated.
\<close>

definition example_engine :: engine where
  "example_engine =
    \<lparr> the_scene = 1, getRawFile = (\<lambda>name. 2), decodeMesh = (\<lambda>a mi. \<lparr>renderable = 3\<rparr>),
      getSkyLight = (\<lambda>name. 4), createCamera = 5, getPrimitiveCount = (\<lambda>e. 2),
      createInstances = (\<lambda>p. p\<lparr>light := 6, materialInstance := (\<lambda>i. 10 + i)\<rparr>),
      updateInstances = (\<lambda>p. ([], materialInstance p (nat (material p)))) \<rparr>"

definition example_params :: SandboxParameters where
  "example_params = default_params True 0 (\<lambda>i. 0)"

definition example_world :: world where
  "example_world = sandbox_setup example_engine (world0 True 0 (\<lambda>i. 0))"

definition no_input :: frame_input where
  "no_input = \<lparr> header_open = (\<lambda>l. False), events = (\<lambda>l. None) \<rparr>"

definition pick_unlit :: frame_input where
  "pick_unlit =
    \<lparr> header_open = (\<lambda>l. l = ''Material''),
      events = (\<lambda>l. if l = ''model'' then Some (Picked 0) else None) \<rparr>"

definition pick_cloth :: frame_input where
  "pick_cloth =
    \<lparr> header_open = (\<lambda>l. l = ''Material''),
      events = (\<lambda>l. if l = ''model'' then Some (Picked 3) else None) \<rparr>"

definition drag_lux :: frame_input where
  "drag_lux =
    \<lparr> header_open = (\<lambda>l. l = ''Light''),
      events = (\<lambda>l. if l = ''lux'' then Some (Dragged 50000) else None) \<rparr>"

definition click_enabled :: frame_input where
  "click_enabled =
    \<lparr> header_open = (\<lambda>l. l = ''Light''),
      events = (\<lambda>l. if l = ''enabled'' then Some Clicked else None) \<rparr>"

definition pick_transparent :: frame_input where
  "pick_transparent =
    \<lparr> header_open = (\<lambda>l. l = ''Material''),
      events = (\<lambda>l. if l = ''blending'' then Some (Picked 1) else None) \<rparr>"

definition drag_lux_beyond :: frame_input where
  "drag_lux_beyond =
    \<lparr> header_open = (\<lambda>l. l = ''Light''),
      events = (\<lambda>l. if l = ''lux'' then Some (Dragged 200000) else None) \<rparr>"

definition unsynced_params :: SandboxParameters where
  "unsynced_params = default_params False 0 (\<lambda>i. 0)"

definition example_engine_000 :: engine_000 where
  "example_engine_000 =
    \<lparr> build_000 = 7, createInstance_000 = (\<lambda>m. 11), getRawFile_000 = (\<lambda>name. 2),
      decodeMesh_000 = (\<lambda>a i. \<lparr>renderable = 3\<rparr>), create_000 = 6, createCamera_000 = 5 \<rparr>"

definition example_world_000 :: world_000 where
  "example_world_000 = setup_000 example_engine_000 world0_000"

section \<open>Lemmas about the model\<close>

lemmas material_consts =
  MATERIAL_MODEL_UNLIT_def MATERIAL_MODEL_LIT_def MATERIAL_MODEL_SUBSURFACE_def
  MATERIAL_MODEL_CLOTH_def MATERIAL_UNLIT_def MATERIAL_LIT_def MATERIAL_SUBSURFACE_def
  MATERIAL_CLOTH_def MATERIAL_TRANSPARENT_def MATERIAL_FADE_def MATERIAL_COUNT_def
  BLENDING_OPAQUE_def BLENDING_TRANSPARENT_def BLENDING_FADE_def

lemma uint_consts:
  "uint MATERIAL_MODEL_UNLIT = 0" "uint MATERIAL_MODEL_LIT = 1"
  "uint MATERIAL_MODEL_SUBSURFACE = 2" "uint MATERIAL_MODEL_CLOTH = 3"
  "uint MATERIAL_UNLIT = 0" "uint MATERIAL_LIT = 1" "uint MATERIAL_SUBSURFACE = 2"
  "uint MATERIAL_CLOTH = 3" "uint MATERIAL_TRANSPARENT = 4" "uint MATERIAL_FADE = 5"
  "uint BLENDING_OPAQUE = 0" "uint BLENDING_TRANSPARENT = 1" "uint BLENDING_FADE = 2"
  by (simp_all add: material_consts)

lemma push_part000_lit:
  "currentMaterialModel q = uint MATERIAL_MODEL_LIT \<Longrightarrow> push_part000 mi q = push_lit mi q"
  by (simp add: push_part000_def uint_consts)


lemma push_lit_alt:
  "push_lit mi q =
     [SetParameter mi ''baseColor'' (RgbType_sRGB (color q)),
      SetParameter mi ''roughness'' (Float (roughness q)),
      SetParameter mi ''metallic'' (Float (metallic q)),
      SetParameter mi ''reflectance'' (Float (reflectance q)),
      SetParameter mi ''clearCoat'' (Float (clearCoat q)),
      SetParameter mi ''clearCoatRoughness'' (Float (clearCoatRoughness q)),
      SetParameter mi ''anisotropy'' (Float (anisotropy q))] @
     (if currentBlending q = uint BLENDING_OPAQUE then []
      else [SetParameter mi ''alpha'' (Float (alpha q))])"
  unfolding push_lit_def by (cases "currentBlending q = uint BLENDING_OPAQUE") simp_all

lemma ui_part000_alt:
  "ui_part000 mi inp p = (push_part000 mi (ui_widgets inp p), ui_widgets inp p)"
  by (simp add: ui_part000_def materialInstance_part000_def Let_def)


lemmas widget_defs = SliderFloat_def SliderFloat3_def SliderAngle_def Combo_def ColorEdit3_def
  Checkbox_def CollapsingHeader_def model_items_def blending_items_def

lemma push_part000_light_independent:
  "push_part000 mi (q\<lparr>lightColor := a, lightIntensity := b, lightDirection := c,
      sunAngularRadius := d, sunHaloSize := e, sunHaloFalloff := f\<rparr>) = push_part000 mi q"
  by (simp add: push_part000_def push_unlit_def push_lit_def push_subsurface_def push_cloth_def)

lemma ui_ready:
  assumes "filamesh (app w) = Some m" and "scene (app w) = Some sc"
    and "skylight (app w) = Some sky"
  shows "ui eng inp w =
    Inr (fst (updateInstances eng (ui_widgets inp (params (app w)))) @
         map (\<lambda>i. SetMaterialInstanceAt (renderable m) i
                    (snd (updateInstances eng (ui_widgets inp (params (app w))))))
           [0 ..< getPrimitiveCount eng (renderable m)] @
         [SetCastShadows (renderable m) (castShadows (ui_widgets inp (params (app w))))] @
         (if directionalLightEnabled (ui_widgets inp (params (app w))) \<and>
             \<not> hasDirectionalLight (ui_widgets inp (params (app w)))
          then [AddEntity sc (light (ui_widgets inp (params (app w))))]
          else if \<not> directionalLightEnabled (ui_widgets inp (params (app w))) \<and>
                  hasDirectionalLight (ui_widgets inp (params (app w)))
          then [Remove sc (light (ui_widgets inp (params (app w))))] else []) @
         [SetIntensity sky (iblIntensity (ui_widgets inp (params (app w)))),
          SetRotation sky (iblRotation (ui_widgets inp (params (app w))))],
         w\<lparr>app := (app w)\<lparr>params := (ui_widgets inp (params (app w)))
                 \<lparr>hasDirectionalLight := directionalLightEnabled (ui_widgets inp (params (app w)))\<rparr>\<rparr>,
           scene_entities :=
             (if directionalLightEnabled (ui_widgets inp (params (app w))) \<and>
                 \<not> hasDirectionalLight (ui_widgets inp (params (app w)))
              then insert (light (ui_widgets inp (params (app w)))) (scene_entities w)
              else if \<not> directionalLightEnabled (ui_widgets inp (params (app w))) \<and>
                      hasDirectionalLight (ui_widgets inp (params (app w)))
              then scene_entities w - {light (ui_widgets inp (params (app w)))}
              else scene_entities w)\<rparr>)"
  using assms
  by (auto simp: ui_def sync_directional_light_def Let_def)


lemma ui_material_sliders_keeps:
  "hasDirectionalLight (ui_material_sliders inp p) = hasDirectionalLight p \<and>
   light (ui_material_sliders inp p) = light p \<and>
   materialInstance (ui_material_sliders inp p) = materialInstance p"
  by (simp add: ui_material_sliders_def Let_def)

lemma ui_material_keeps:
  "hasDirectionalLight (ui_material inp p) = hasDirectionalLight p \<and>
   light (ui_material inp p) = light p \<and>
   materialInstance (ui_material inp p) = materialInstance p"
  by (simp add: ui_material_def Let_def ui_material_sliders_keeps)

lemma ui_widgets_keeps:
  "hasDirectionalLight (ui_widgets inp p) = hasDirectionalLight p \<and>
   light (ui_widgets inp p) = light p \<and>
   materialInstance (ui_widgets inp p) = materialInstance p"
  by (simp add: ui_widgets_def ui_material_keeps ui_object_def ui_light_def Let_def)


lemma setup_params_example:
  "setup_params example_params =
     example_params\<lparr>iblIntensity := 10000, lightDirection := (0, 0, -1), iblRotation := pi,
       clearCoat := 7 / 10, metallic := 1 / 4, reflectance := 3 / 4,
       color := (158 / 255, 118 / 255, 74 / 255)\<rparr>"
  by (simp add: setup_params_def Let_def set_x_def set_y_def set_z_def example_params_def
      default_params_def)

lemma example_world_eq:
  "example_world =
     \<lparr> app = \<lparr> filamesh = Some \<lparr>renderable = 3\<rparr>, cam = Some 5,
               params = (setup_params example_params)\<lparr>light := 6, materialInstance := (\<lambda>i. 10 + i)\<rparr>,
               skylight = Some 4, scene = Some 1 \<rparr>,
       previous = None, mesh = Some 2, scene_entities = {6, 3} \<rparr>"
  by (simp add: example_world_def sandbox_setup_def example_engine_def world0_def app0_def
      example_params_def Let_def)

lemma run_frames_note:
  "run_frames note_animate note_ui frames l =
     l @ concat (map (\<lambda>f. [Animate_called f, Ui_called f]) frames)"
  by (induction frames arbitrary: l) (simp_all add: note_animate_def note_ui_def)

lemma count_frames_setup:
  "count_list (concat (map (\<lambda>f. [Animate_called f, Ui_called f]) frames)) Setup_called = 0"
  by (induction frames) simp_all

lemma ratio_cases:
  "ratio w h =
     (if h = 0 then (if w = 0 then NaN else PlusInfinity)
      else Finite (real (unat w) / real (unat h)))"
proof -
  have z: "(real (unat x) = 0) = (x = 0)" for x :: "32 word"
  proof -
    have "(real (unat x) = 0) = (unat x = 0)" by (rule of_nat_eq_0_iff)
    also have "\<dots> = (x = 0)" by (rule unat_eq_0)
    finally show ?thesis .
  qed
  have p: "0 < real (unat x)" if "x \<noteq> 0" for x :: "32 word"
  proof -
    from that have "0 < unat x" by (simp add: unat_gt_0)
    then show ?thesis by (rule iffD2 [OF of_nat_0_less_iff])
  qed
  show ?thesis
  proof (cases "h = 0")
    case True
    then have "real (unat h) = 0" by (rule iffD2 [OF z])
    then show ?thesis
      unfolding ratio_def double_divide_def using True z [of w] p [of w] by auto
  next
    case False
    then have "real (unat h) \<noteq> 0" using z [of h] by blast
    then show ?thesis
      unfolding ratio_def double_divide_def using False by auto
  qed
qed

lemma quotient_less_one:
  assumes "h \<noteq> 0"
  shows "(real (unat w) / real (unat (h::32 word)) < 1) = (w < h)"
proof -
  from assms have "0 < unat h" by (simp add: unat_gt_0)
  then have pos: "0 < real (unat h)" by (rule iffD2 [OF of_nat_0_less_iff])
  have "(real (unat w) / real (unat h) < 1) = (real (unat w) < real (unat h))"
    using pos by (rule divide_less_eq_1_pos)
  also have "\<dots> = (unat w < unat h)" by (rule of_nat_less_iff)
  also have "\<dots> = (w < h)" by (rule word_less_nat_alt [symmetric])
  finally show ?thesis .
qed

lemma ratio_less_one: "double_less (ratio w h) 1 = (w < h)"
proof (cases "h = 0")
  case True
  then show ?thesis by (simp add: ratio_cases double_less_def)
next
  case False
  then show ?thesis
    using quotient_less_one [OF False, of w] by (simp add: ratio_cases double_less_def)
qed

lemma adjust_camera_Some:
  "adjust_camera (Some c) vp =
     Inr [SetProjection c 45 (ratio (width vp) (height vp)) (1 / 10) 50
            (if width vp < height vp then HORIZONTAL else VERTICAL)]"
  by (simp add: adjust_camera_def Let_def ratio_less_one)

lemma adjust_camera_None: "adjust_camera None vp = Inl NullPointer"
  by (simp add: adjust_camera_def Let_def)

lemma ui_widgets_no_input: "ui_widgets no_input p = p"
  by (simp add: ui_widgets_def CollapsingHeader_def no_input_def)

lemma ui_widgets_drag_lux:
  "ui_widgets drag_lux example_params = example_params\<lparr>lightIntensity := 50000\<rparr>"
  by (simp add: ui_widgets_def CollapsingHeader_def drag_lux_def ui_light_def widget_defs
      example_params_def default_params_def)

lemma ui_widgets_pick_unlit:
  "ui_widgets pick_unlit example_params = example_params\<lparr>currentMaterialModel := 0\<rparr>"
  by (simp add: ui_widgets_def CollapsingHeader_def pick_unlit_def ui_material_def widget_defs
      example_params_def default_params_def material_consts Let_def)

lemma Combo_range:
  "0 \<le> cur \<Longrightarrow> cur < int (length items) \<Longrightarrow>
     0 \<le> Combo ev cur items \<and> Combo ev cur items < int (length items)"
  by (auto simp: Combo_def split: option.splits widget_event.splits)

lemma ui_material_sliders_model:
  "currentMaterialModel (ui_material_sliders inp p) = currentMaterialModel p \<and>
   currentBlending (ui_material_sliders inp p) = currentBlending p"
  by (simp add: ui_material_sliders_def Let_def)

lemma ui_material_model:
  "currentMaterialModel (ui_material inp p) =
     Combo (events inp ''model'') (currentMaterialModel p) model_items"
  by (simp add: ui_material_def Let_def ui_material_sliders_model)

lemma ui_widgets_model:
  "currentMaterialModel (ui_widgets inp p) =
     (if CollapsingHeader inp ''Material''
      then Combo (events inp ''model'') (currentMaterialModel p) model_items
      else currentMaterialModel p)"
  by (simp add: ui_widgets_def Let_def ui_material_model ui_object_def ui_light_def)



lemma ui_widgets_pick_transparent:
  "ui_widgets pick_transparent example_params = example_params\<lparr>currentBlending := 1\<rparr>"
  by (simp add: ui_widgets_def CollapsingHeader_def pick_transparent_def ui_material_def
      ui_material_sliders_def widget_defs example_params_def default_params_def uint_consts
      Let_def)


lemma ui_widgets_click_enabled:
  "ui_widgets click_enabled p = p\<lparr>directionalLightEnabled := \<not> directionalLightEnabled p\<rparr>"
  by (simp add: ui_widgets_def CollapsingHeader_def click_enabled_def ui_light_def widget_defs
      Let_def)


lemma in_interval_SliderFloat:
  "v_min \<le> v_max \<Longrightarrow> in_interval v_min v_max v \<Longrightarrow>
     in_interval v_min v_max (SliderFloat ev v v_min v_max)"
  by (auto simp: in_interval_def SliderFloat_def split: option.splits widget_event.splits)

lemma in_interval3_SliderFloat3:
  "v_min \<le> v_max \<Longrightarrow> in_interval3 v_min v_max v \<Longrightarrow>
     in_interval3 v_min v_max (SliderFloat3 ev v v_min v_max)"
  by (auto simp: in_interval3_def in_interval_def SliderFloat3_def
      split: option.splits widget_event.splits prod.splits)

lemma in_range_Let: "in_range a \<Longrightarrow> (\<And>x. in_range x \<Longrightarrow> in_range (f x)) \<Longrightarrow> in_range (Let a f)"
  by simp

lemma in_range_If: "in_range a \<Longrightarrow> in_range b \<Longrightarrow> in_range (if c then a else b)"
  by simp

lemma in_range_update:
  "in_range p \<Longrightarrow> in_interval 0 1 v \<Longrightarrow> in_range (p\<lparr>alpha := v\<rparr>)"
  "in_range p \<Longrightarrow> in_interval 0 1 v \<Longrightarrow> in_range (p\<lparr>roughness := v\<rparr>)"
  "in_range p \<Longrightarrow> in_interval 0 1 v \<Longrightarrow> in_range (p\<lparr>metallic := v\<rparr>)"
  "in_range p \<Longrightarrow> in_interval 0 1 v \<Longrightarrow> in_range (p\<lparr>reflectance := v\<rparr>)"
  "in_range p \<Longrightarrow> in_interval 0 1 v \<Longrightarrow> in_range (p\<lparr>clearCoat := v\<rparr>)"
  "in_range p \<Longrightarrow> in_interval 0 1 v \<Longrightarrow> in_range (p\<lparr>clearCoatRoughness := v\<rparr>)"
  "in_range p \<Longrightarrow> in_interval (- 1) 1 v \<Longrightarrow> in_range (p\<lparr>anisotropy := v\<rparr>)"
  "in_range p \<Longrightarrow> in_interval 0 1 v \<Longrightarrow> in_range (p\<lparr>thickness := v\<rparr>)"
  "in_range p \<Longrightarrow> in_interval 1 24 v \<Longrightarrow> in_range (p\<lparr>subsurfacePower := v\<rparr>)"
  "in_range p \<Longrightarrow> in_interval 0 150000 v \<Longrightarrow> in_range (p\<lparr>lightIntensity := v\<rparr>)"
  "in_range p \<Longrightarrow> in_interval3 (- 1) 1 d \<Longrightarrow> in_range (p\<lparr>lightDirection := d\<rparr>)"
  "in_range p \<Longrightarrow> in_interval 0.1 10 v \<Longrightarrow> in_range (p\<lparr>sunAngularRadius := v\<rparr>)"
  "in_range p \<Longrightarrow> in_interval 1.01 40 v \<Longrightarrow> in_range (p\<lparr>sunHaloSize := v\<rparr>)"
  "in_range p \<Longrightarrow> in_interval 0 2048 v \<Longrightarrow> in_range (p\<lparr>sunHaloFalloff := v\<rparr>)"
  "in_range p \<Longrightarrow> in_interval 0 50000 v \<Longrightarrow> in_range (p\<lparr>iblIntensity := v\<rparr>)"
  by (simp_all add: in_range_def)

lemma in_range_other_update:
  "in_range p \<Longrightarrow> in_range (p\<lparr>color := c\<rparr>)"
  "in_range p \<Longrightarrow> in_range (p\<lparr>subsurfaceColor := c\<rparr>)"
  "in_range p \<Longrightarrow> in_range (p\<lparr>sheenColor := c\<rparr>)"
  "in_range p \<Longrightarrow> in_range (p\<lparr>lightColor := c\<rparr>)"
  "in_range p \<Longrightarrow> in_range (p\<lparr>currentMaterialModel := i\<rparr>)"
  "in_range p \<Longrightarrow> in_range (p\<lparr>currentBlending := i\<rparr>)"
  "in_range p \<Longrightarrow> in_range (p\<lparr>castShadows := b\<rparr>)"
  "in_range p \<Longrightarrow> in_range (p\<lparr>directionalLightEnabled := b\<rparr>)"
  "in_range p \<Longrightarrow> in_range (p\<lparr>hasDirectionalLight := b\<rparr>)"
  "in_range p \<Longrightarrow> in_range (p\<lparr>iblRotation := v\<rparr>)"
  by (simp_all add: in_range_def)

lemma in_range_ui_material_sliders:
  "in_range p \<Longrightarrow> in_range (ui_material_sliders inp p)"
  unfolding ui_material_sliders_def
  by (intro in_range_Let in_range_If in_range_update in_range_other_update in_interval_SliderFloat)
     (simp_all add: in_range_def in_interval_SliderFloat)

lemma in_range_ui_material:
  "in_range p \<Longrightarrow> in_range (ui_material inp p)"
  unfolding ui_material_def
  by (intro in_range_Let in_range_If in_range_update in_range_other_update
      in_range_ui_material_sliders)

lemma in_range_ui_object: "in_range p \<Longrightarrow> in_range (ui_object inp p)"
  unfolding ui_object_def by (intro in_range_other_update)

lemma in_range_ui_light: "in_range p \<Longrightarrow> in_range (ui_light inp p)"
  unfolding ui_light_def
  by (intro in_range_update in_range_other_update in_interval_SliderFloat in_interval3_SliderFloat3)
     (simp_all add: in_range_def in_interval_SliderFloat in_interval3_SliderFloat3)

lemma in_range_ui_widgets: "in_range p \<Longrightarrow> in_range (ui_widgets inp p)"
  unfolding ui_widgets_def
  by (intro in_range_Let in_range_If in_range_ui_material in_range_ui_object in_range_ui_light)

lemma in_range_setup_params: "in_range (setup_params (default_params h l ms))"
  by (simp add: setup_params_def Let_def set_x_def set_y_def set_z_def default_params_def
      in_range_def in_interval_def in_interval3_def)

lemma ui_flag_follows_toggle:
  assumes "ui eng inp w = Inr (calls, w')"
  shows "hasDirectionalLight (params (app w')) = directionalLightEnabled (params (app w'))"
  using assms
  by (auto simp: ui_def sync_directional_light_def Let_def
      split: option.splits if_splits sum.splits)


lemma setup_params_overrides:
  "setup_params p =
     p\<lparr>iblIntensity := 10000, lightDirection := (0, 0, - 1), iblRotation := pi,
       clearCoat := 7 / 10, metallic := 25 / 100, reflectance := 75 / 100,
       color := (158 / 255, 118 / 255, 74 / 255)\<rparr>"
  by (cases "lightDirection p"; cases "color p")
     (simp add: setup_params_def set_x_def set_y_def set_z_def)

lemma setup_params_default:
  "setup_params (default_params h l ms) =
     \<lparr> color = (158 / 255, 118 / 255, 74 / 255), alpha = 1, roughness = 6 / 10,
       metallic = 25 / 100, reflectance = 75 / 100, clearCoat = 7 / 10, clearCoatRoughness = 0,
       anisotropy = 0, thickness = 1, subsurfacePower = 12234 / 1000,
       subsurfaceColor = (0, 0, 0), sheenColor = (83 / 100, 0, 0),
       currentMaterialModel = 1, currentBlending = 0, castShadows = True,
       lightColor = (98 / 100, 92 / 100, 89 / 100), lightIntensity = 110000,
       lightDirection = (0, 0, - 1), iblIntensity = 10000, iblRotation = pi,
       sunHaloSize = 10, sunHaloFalloff = 80, sunAngularRadius = 19 / 10,
       directionalLightEnabled = True, hasDirectionalLight = h, light = l,
       materialInstance = ms \<rparr>"
  by (simp add: setup_params_overrides default_params_def uint_consts)

lemma params_sandbox_setup:
  "params (app (sandbox_setup eng w)) = createInstances eng (setup_params (params (app w)))"
  by (simp add: sandbox_setup_def Let_def)

lemma ui_material_sliders_idle:
  "events inp = (\<lambda>l. None) \<Longrightarrow> ui_material_sliders inp p = p"
  by (simp add: ui_material_sliders_def SliderFloat_def ColorEdit3_def)

lemma ui_material_idle:
  "events inp = (\<lambda>l. None) \<Longrightarrow> ui_material inp p = p"
  by (simp add: ui_material_def Combo_def ColorEdit3_def ui_material_sliders_idle)

lemma ui_widgets_idle:
  "events inp = (\<lambda>l. None) \<Longrightarrow> ui_widgets inp p = p"
  by (simp add: ui_widgets_def ui_material_idle ui_object_def ui_light_def
      SliderFloat_def SliderFloat3_def SliderAngle_def ColorEdit3_def Checkbox_def)

lemma animate_keeps_app:
  "animate vp now w = Inr (c, w') \<Longrightarrow>
     app w' = app w \<and> mesh w' = mesh w \<and> scene_entities w' = scene_entities w \<and>
     previous w' = Some (case previous w of None \<Rightarrow> now | Some t \<Rightarrow> t)"
  by (auto simp: animate_def Let_def split: sum.splits)

lemma sync_directional_light_params:
  "sync_directional_light sc p ents = Inr (c4, p2, ents') \<Longrightarrow>
     p2 = p\<lparr>hasDirectionalLight := directionalLightEnabled p\<rparr>"
  by (auto simp: sync_directional_light_def split: if_splits option.splits)

lemma ui_keeps_handles:
  assumes "ui eng inp w = Inr (c, w')"
  shows "filamesh (app w') = filamesh (app w) \<and> cam (app w') = cam (app w) \<and>
     skylight (app w') = skylight (app w) \<and> scene (app w') = scene (app w) \<and>
     previous w' = previous w \<and> mesh w' = mesh w \<and>
     params (app w') = (ui_widgets inp (params (app w)))
       \<lparr>hasDirectionalLight := directionalLightEnabled (ui_widgets inp (params (app w)))\<rparr>"
proof -
  let ?p1 = "ui_widgets inp (params (app w))"
  from assms obtain m where m: "filamesh (app w) = Some m"
    by (cases "filamesh (app w)") (simp_all add: ui_def Let_def)
  from assms m obtain c4 p2 ents
    where s: "sync_directional_light (scene (app w)) ?p1 (scene_entities w) = Inr (c4, p2, ents)"
    by (cases "sync_directional_light (scene (app w)) ?p1 (scene_entities w)")
       (auto simp: ui_def Let_def)
  from assms m s obtain sky where k: "skylight (app w) = Some sky"
    by (cases "skylight (app w)") (simp_all add: ui_def Let_def)
  have "w' = w\<lparr>app := (app w)\<lparr>params := p2\<rparr>, scene_entities := ents\<rparr>"
    using assms m s k by (simp add: ui_def Let_def)
  then show ?thesis
    using sync_directional_light_params [OF s] by simp
qed


lemma ui_params_after: "case ui eng inp w of
      Inl e \<Rightarrow> True
    | Inr (c, w') \<Rightarrow>
        params (app w') =
          (ui_widgets inp (params (app w)))
            \<lparr>hasDirectionalLight := directionalLightEnabled (ui_widgets inp (params (app w)))\<rparr>"
proof (cases "ui eng inp w")
  case (Inl e)
  then show ?thesis by simp
next
  case (Inr r)
  obtain c w' where r: "r = (c, w')" by (cases r)
  show ?thesis
    using ui_keeps_handles [of eng inp w c w'] Inr r by simp
qed

lemma animate_params_after: "case animate vp now w of
      Inl e \<Rightarrow> True | Inr (c, w') \<Rightarrow> params (app w') = params (app w)"
proof (cases "animate vp now w")
  case (Inl e)
  then show ?thesis by simp
next
  case (Inr r)
  obtain c w' where r: "r = (c, w')" by (cases r)
  show ?thesis
    using animate_keeps_app [of vp now w c w'] Inr r by simp
qed


lemma ui_widgets_pick_cloth:
  "ui_widgets pick_cloth example_params = example_params\<lparr>currentMaterialModel := 3\<rparr>"
  by (simp add: ui_widgets_def CollapsingHeader_def pick_cloth_def ui_material_def
      ui_material_sliders_def widget_defs example_params_def default_params_def uint_consts)

lemma SandboxParameters_eq_iff:
  "(p = q) =
     (color p = color q \<and> alpha p = alpha q \<and> roughness p = roughness q \<and>
      metallic p = metallic q \<and> reflectance p = reflectance q \<and>
      clearCoat p = clearCoat q \<and> clearCoatRoughness p = clearCoatRoughness q \<and>
      anisotropy p = anisotropy q \<and> thickness p = thickness q \<and>
      subsurfacePower p = subsurfacePower q \<and> subsurfaceColor p = subsurfaceColor q \<and>
      sheenColor p = sheenColor q \<and> currentMaterialModel p = currentMaterialModel q \<and>
      currentBlending p = currentBlending q \<and> castShadows p = castShadows q \<and>
      lightColor p = lightColor q \<and> lightIntensity p = lightIntensity q \<and>
      lightDirection p = lightDirection q \<and> iblIntensity p = iblIntensity q \<and>
      iblRotation p = iblRotation q \<and> sunHaloSize p = sunHaloSize q \<and>
      sunHaloFalloff p = sunHaloFalloff q \<and> sunAngularRadius p = sunAngularRadius q \<and>
      directionalLightEnabled p = directionalLightEnabled q \<and>
      hasDirectionalLight p = hasDirectionalLight q \<and> light p = light q \<and>
      materialInstance p = materialInstance q)"
  for p q :: SandboxParameters
  by (cases p, cases q) simp

lemma SandboxApp_eq_iff:
  "(a = b) =
     (filamesh a = filamesh b \<and> cam a = cam b \<and> params a = params b \<and>
      skylight a = skylight b \<and> scene a = scene b)"
  for a b :: SandboxApp
  by (cases a, cases b) simp

lemma world_eq_iff:
  "(v = w) =
     (app v = app w \<and> previous v = previous w \<and> mesh v = mesh w \<and>
      scene_entities v = scene_entities w)"
  for v w :: world
  by (cases v, cases w) simp

lemma sandbox_setup_handles:
  "filamesh (app (sandbox_setup eng w)) =
     Some (decodeMesh eng (case mesh w of None \<Rightarrow> getRawFile eng ''mesh'' | Some a \<Rightarrow> a)
             (materialInstance (createInstances eng (setup_params (params (app w))))
                (unat MATERIAL_LIT)))"
  "cam (app (sandbox_setup eng w)) = Some (createCamera eng)"
  "skylight (app (sandbox_setup eng w)) = Some (getSkyLight eng ''pillars_2k'')"
  "scene (app (sandbox_setup eng w)) = Some (the_scene eng)"
  "mesh (sandbox_setup eng w) =
     Some (case mesh w of None \<Rightarrow> getRawFile eng ''mesh'' | Some a \<Rightarrow> a)"
  "previous (sandbox_setup eng w) = previous w"
  by (simp_all add: sandbox_setup_def Let_def)

lemma ui_handles_after:
  "case ui eng inp w of
     Inl e \<Rightarrow> True
   | Inr (c, w') \<Rightarrow>
       filamesh (app w') = filamesh (app w) \<and> cam (app w') = cam (app w) \<and>
       skylight (app w') = skylight (app w) \<and> scene (app w') = scene (app w) \<and>
       previous w' = previous w \<and> mesh w' = mesh w"
proof (cases "ui eng inp w")
  case (Inl e)
  then show ?thesis by simp
next
  case (Inr r)
  obtain c w' where r: "r = (c, w')" by (cases r)
  show ?thesis
    using ui_keeps_handles [of eng inp w c w'] Inr r by simp
qed

lemma animate_state_after:
  "case animate vp now w of
     Inl e \<Rightarrow> True
   | Inr (c, w') \<Rightarrow>
       app w' = app w \<and> mesh w' = mesh w \<and> scene_entities w' = scene_entities w \<and>
       previous w' = Some (case previous w of None \<Rightarrow> now | Some t \<Rightarrow> t)"
proof (cases "animate vp now w")
  case (Inl e)
  then show ?thesis by simp
next
  case (Inr r)
  obtain c w' where r: "r = (c, w')" by (cases r)
  show ?thesis
    using animate_keeps_app [of vp now w c w'] Inr r by simp
qed


lemma run_frames_append:
  "run_frames animate_cb ui_cb (fs @ [f]) s = ui_cb f (animate_cb f (run_frames animate_cb ui_cb fs s))"
  by (induction fs arbitrary: s) simp_all

lemma launch_Nil: "launch eng [] w = Inr ([], sandbox_setup eng w)"
  by (simp add: launch_def run_def setup_callback_def)

lemma launch_snoc:
  "launch eng (fs @ [f]) w = ui_callback eng f (animate_callback f (launch eng fs w))"
  by (simp add: launch_def run_def run_frames_append)

lemma sandbox_setup_initialised: "initialised (sandbox_setup eng w)"
  by (simp add: initialised_def sandbox_setup_handles)

lemma sandbox_setup_synced:
  "hasDirectionalLight (createInstances eng (setup_params (params (app w)))) \<Longrightarrow>
     light_synced (sandbox_setup eng w)"
  by (simp add: light_synced_def sandbox_setup_def Let_def)

lemma animate_keeps_invariant:
  assumes "animate vp now w = Inr (c, w')" and "initialised w" and "light_synced w"
  shows "initialised w' \<and> light_synced w'"
  using animate_keeps_app [OF assms(1)] assms(2,3)
  by (simp add: initialised_def light_synced_def)

lemma ui_keeps_invariant:
  assumes "ui eng inp w = Inr (c, w')" and "initialised w" and "light_synced w"
  shows "initialised w' \<and> light_synced w' \<and>
         hasDirectionalLight (params (app w')) = directionalLightEnabled (params (app w')) \<and>
         (light (params (app w')) \<in> scene_entities w') = directionalLightEnabled (params (app w'))"
proof -
  from assms(2) obtain m sc sky where h: "filamesh (app w) = Some m" "scene (app w) = Some sc"
      "skylight (app w) = Some sky"
    by (auto simp: initialised_def)
  note k = ui_widgets_keeps [of inp "params (app w)"]
  have i: "initialised w'"
    using ui_keeps_handles [OF assms(1)] assms(2) by (simp add: initialised_def)
  have f: "hasDirectionalLight (params (app w')) = directionalLightEnabled (params (app w'))"
    using assms(1) by (rule ui_flag_follows_toggle)
  have s: "light_synced w'"
    using assms(1,3) k unfolding ui_ready [OF h] light_synced_def
    by (cases "directionalLightEnabled (ui_widgets inp (params (app w)))";
        cases "hasDirectionalLight (params (app w))") auto
  from i f s show ?thesis by (simp add: light_synced_def)
qed

lemma launch_keeps_invariant:
  assumes "hasDirectionalLight (createInstances eng (setup_params (params (app w0))))"
    and "launch eng frames w0 = Inr (calls, w')"
  shows "initialised w' \<and> light_synced w'"
  using assms(2)
proof (induction frames arbitrary: calls w' rule: rev_induct)
  case Nil
  then show ?case
    using sandbox_setup_initialised [of eng w0] sandbox_setup_synced [OF assms(1)]
    by (simp add: launch_Nil)
next
  case (snoc f fs)
  from snoc.prems obtain c1 w1 where l: "launch eng fs w0 = Inr (c1, w1)"
    by (cases "launch eng fs w0")
       (auto simp: launch_snoc animate_callback_def ui_callback_def)
  from snoc.prems l obtain c2 w2 where a: "animate (frame_viewport f) (frame_now f) w1 = Inr (c2, w2)"
    by (cases "animate (frame_viewport f) (frame_now f) w1")
       (auto simp: launch_snoc animate_callback_def ui_callback_def)
  from snoc.prems l a obtain c3 where u: "ui eng (frame_events f) w2 = Inr (c3, w')"
    by (cases "ui eng (frame_events f) w2")
       (auto simp: launch_snoc animate_callback_def ui_callback_def)
  from snoc.IH [OF l] have "initialised w1 \<and> light_synced w1" .
  with animate_keeps_invariant [OF a] have "initialised w2 \<and> light_synced w2" by simp
  with ui_keeps_invariant [OF u] show ?case by simp
qed

lemma launch_light_follows_toggle:
  assumes "hasDirectionalLight (createInstances eng (setup_params (params (app w0))))"
    and "launch eng (fs @ [f]) w0 = Inr (calls, w')"
  shows "hasDirectionalLight (params (app w')) = directionalLightEnabled (params (app w')) \<and>
         (light (params (app w')) \<in> scene_entities w') = directionalLightEnabled (params (app w'))"
proof -
  from assms(2) obtain c1 w1 where l: "launch eng fs w0 = Inr (c1, w1)"
    by (cases "launch eng fs w0")
       (auto simp: launch_snoc animate_callback_def ui_callback_def)
  from assms(2) l obtain c2 w2 where a: "animate (frame_viewport f) (frame_now f) w1 = Inr (c2, w2)"
    by (cases "animate (frame_viewport f) (frame_now f) w1")
       (auto simp: launch_snoc animate_callback_def ui_callback_def)
  from assms(2) l a obtain c3 where u: "ui eng (frame_events f) w2 = Inr (c3, w')"
    by (cases "ui eng (frame_events f) w2")
       (auto simp: launch_snoc animate_callback_def ui_callback_def)
  from launch_keeps_invariant [OF assms(1) l] have "initialised w1 \<and> light_synced w1" .
  with animate_keeps_invariant [OF a] have "initialised w2 \<and> light_synced w2" by simp
  with ui_keeps_invariant [OF u] show ?thesis by simp
qed


lemma in_range_default_params: "in_range (default_params h l ms)"
  by (simp add: default_params_def in_range_def in_interval_def in_interval3_def)


lemma ui_material_sliders_fields:
  "alpha (ui_material_sliders inp q) =
     (if currentBlending q = uint BLENDING_TRANSPARENT \<or> currentBlending q = uint BLENDING_FADE
      then SliderFloat (events inp ''alpha'') (alpha q) 0 1 else alpha q)"
  "anisotropy (ui_material_sliders inp q) =
     (if currentMaterialModel q \<noteq> uint MATERIAL_MODEL_CLOTH \<and>
         currentMaterialModel q \<noteq> uint MATERIAL_MODEL_SUBSURFACE
      then SliderFloat (events inp ''anisotropy'') (anisotropy q) (- 1) 1 else anisotropy q)"
  "lightColor (ui_material_sliders inp q) = lightColor q"
  "sunHaloSize (ui_material_sliders inp q) = sunHaloSize q"
  "sunHaloFalloff (ui_material_sliders inp q) = sunHaloFalloff q"
  by (simp_all add: ui_material_sliders_def Let_def)

lemma ui_material_fields:
  "currentBlending (ui_material inp p) =
     (if currentMaterialModel (ui_material inp p) = uint MATERIAL_MODEL_LIT
      then Combo (events inp ''blending'') (currentBlending p) blending_items
      else currentBlending p)"
  "alpha (ui_material inp p) =
     (if uint MATERIAL_MODEL_UNLIT < currentMaterialModel (ui_material inp p) \<and>
         (currentBlending (ui_material inp p) = uint BLENDING_TRANSPARENT \<or>
          currentBlending (ui_material inp p) = uint BLENDING_FADE)
      then SliderFloat (events inp ''alpha'') (alpha p) 0 1 else alpha p)"
  "anisotropy (ui_material inp p) =
     (if uint MATERIAL_MODEL_UNLIT < currentMaterialModel (ui_material inp p) \<and>
         currentMaterialModel (ui_material inp p) \<noteq> uint MATERIAL_MODEL_CLOTH \<and>
         currentMaterialModel (ui_material inp p) \<noteq> uint MATERIAL_MODEL_SUBSURFACE
      then SliderFloat (events inp ''anisotropy'') (anisotropy p) (- 1) 1 else anisotropy p)"
  "lightColor (ui_material inp p) = lightColor p"
  "sunHaloSize (ui_material inp p) = sunHaloSize p"
  "sunHaloFalloff (ui_material inp p) = sunHaloFalloff p"
  by (simp_all add: ui_material_def Let_def ui_material_sliders_fields ui_material_sliders_model)

lemma ui_widgets_material_fields:
  "currentBlending (ui_widgets inp p) =
     (if CollapsingHeader inp ''Material'' then currentBlending (ui_material inp p)
      else currentBlending p)"
  "alpha (ui_widgets inp p) =
     (if CollapsingHeader inp ''Material'' then alpha (ui_material inp p) else alpha p)"
  "anisotropy (ui_widgets inp p) =
     (if CollapsingHeader inp ''Material'' then anisotropy (ui_material inp p) else anisotropy p)"
  "currentMaterialModel (ui_widgets inp p) =
     (if CollapsingHeader inp ''Material'' then currentMaterialModel (ui_material inp p)
      else currentMaterialModel p)"
  by (simp_all add: ui_widgets_def Let_def ui_object_def ui_light_def)

lemma ui_widgets_light_fields:
  "lightColor (ui_widgets inp p) =
     (if CollapsingHeader inp ''Light'' then ColorEdit3 (events inp ''color'') (lightColor p)
      else lightColor p)"
  "sunHaloSize (ui_widgets inp p) =
     (if CollapsingHeader inp ''Light''
      then SliderFloat (events inp ''haloSize'') (sunHaloSize p) 1.01 40
      else sunHaloSize p)"
  "sunHaloFalloff (ui_widgets inp p) =
     (if CollapsingHeader inp ''Light''
      then SliderFloat (events inp ''haloFalloff'') (sunHaloFalloff p) 0 2048
      else sunHaloFalloff p)"
  by (simp_all add: ui_widgets_def Let_def ui_object_def ui_light_def ui_material_fields)

lemma setup_000_handles:
  "mat_000 (app_000 (setup_000 eng v)) = Some (build_000 eng)"
  "mi_000 (app_000 (setup_000 eng v)) = Some (createInstance_000 eng (build_000 eng))"
  "filamesh_000 (app_000 (setup_000 eng v)) =
     Some (decodeMesh_000 eng
             (case mesh_000 v of None \<Rightarrow> getRawFile_000 eng ''mesh'' | Some a \<Rightarrow> a)
             (createInstance_000 eng (build_000 eng)))"
  "sun_000 (app_000 (setup_000 eng v)) = Some (create_000 eng)"
  "cam_000 (app_000 (setup_000 eng v)) = Some (createCamera_000 eng)"
  "params_000 (app_000 (setup_000 eng v)) = params_000 (app_000 v)"
  "mesh_000 (setup_000 eng v) =
     Some (case mesh_000 v of None \<Rightarrow> getRawFile_000 eng ''mesh'' | Some a \<Rightarrow> a)"
  "previous_000 (setup_000 eng v) = previous_000 v"
  by (simp_all add: setup_000_def Let_def)

lemma ui_000_after:
  "case ui_000 inp v of
     Inl e \<Rightarrow> True
   | Inr (c, v') \<Rightarrow>
       filamesh_000 (app_000 v') = filamesh_000 (app_000 v) \<and>
       mat_000 (app_000 v') = mat_000 (app_000 v) \<and>
       mi_000 (app_000 v') = mi_000 (app_000 v) \<and>
       cam_000 (app_000 v') = cam_000 (app_000 v) \<and>
       sun_000 (app_000 v') = sun_000 (app_000 v) \<and>
       params_000 (app_000 v') = ui_widgets inp (params_000 (app_000 v)) \<and>
       previous_000 v' = previous_000 v \<and> mesh_000 v' = mesh_000 v \<and>
       scene_entities_000 v' = scene_entities_000 v"
  by (cases "mi_000 (app_000 v)") (simp_all add: ui_000_def Let_def)

lemma ui_000_Some:
  "mi_000 (app_000 v) = Some i \<Longrightarrow>
     ui_000 inp v =
       Inr (push_part000 i (ui_widgets inp (params_000 (app_000 v))),
            v\<lparr>app_000 := (app_000 v)\<lparr>params_000 := ui_widgets inp (params_000 (app_000 v))\<rparr>\<rparr>)"
  by (simp add: ui_000_def Let_def ui_part000_alt)

lemma animate_000_after:
  "case animate_000 vp now v of
     Inl e \<Rightarrow> True
   | Inr (c, v') \<Rightarrow>
       app_000 v' = app_000 v \<and> mesh_000 v' = mesh_000 v \<and>
       scene_entities_000 v' = scene_entities_000 v \<and>
       previous_000 v' = Some (case previous_000 v of None \<Rightarrow> now | Some t \<Rightarrow> t)"
  by (cases "animate_part000 (cam_000 (app_000 v)) (filamesh_000 (app_000 v)) vp now")
     (simp_all add: animate_000_def Let_def)

lemma example_world_000_eq:
  "example_world_000 =
     \<lparr> app_000 =
         \<lparr> filamesh_000 = Some \<lparr>renderable = 3\<rparr>, mat_000 = Some 7, mi_000 = Some 11,
           cam_000 = Some 5, sun_000 = Some 6, params_000 = example_params \<rparr>,
       previous_000 = None, mesh_000 = Some 2, scene_entities_000 = {6, 3} \<rparr>"
  by (simp add: example_world_000_def setup_000_def world0_000_def example_engine_000_def
      example_params_def Let_def)


lemma ui_widgets_writes:
  "currentMaterialModel (ui_widgets inp p) =
     (if CollapsingHeader inp ''Material''
      then Combo (events inp ''model'') (currentMaterialModel p) model_items
      else currentMaterialModel p)"
  "currentBlending (ui_widgets inp p) =
     (if CollapsingHeader inp ''Material'' \<and>
         currentMaterialModel (ui_widgets inp p) = uint MATERIAL_MODEL_LIT
      then Combo (events inp ''blending'') (currentBlending p) blending_items
      else currentBlending p)"
  "alpha (ui_widgets inp p) =
     (if CollapsingHeader inp ''Material'' \<and>
         uint MATERIAL_MODEL_UNLIT < currentMaterialModel (ui_widgets inp p) \<and>
         (currentBlending (ui_widgets inp p) = uint BLENDING_TRANSPARENT \<or>
          currentBlending (ui_widgets inp p) = uint BLENDING_FADE)
      then SliderFloat (events inp ''alpha'') (alpha p) 0 1 else alpha p)"
  "anisotropy (ui_widgets inp p) =
     (if CollapsingHeader inp ''Material'' \<and>
         uint MATERIAL_MODEL_UNLIT < currentMaterialModel (ui_widgets inp p) \<and>
         currentMaterialModel (ui_widgets inp p) \<noteq> uint MATERIAL_MODEL_CLOTH \<and>
         currentMaterialModel (ui_widgets inp p) \<noteq> uint MATERIAL_MODEL_SUBSURFACE
      then SliderFloat (events inp ''anisotropy'') (anisotropy p) (- 1) 1 else anisotropy p)"
  "lightColor (ui_widgets inp p) =
     (if CollapsingHeader inp ''Light'' then ColorEdit3 (events inp ''color'') (lightColor p)
      else lightColor p)"
  "sunHaloSize (ui_widgets inp p) =
     (if CollapsingHeader inp ''Light''
      then SliderFloat (events inp ''haloSize'') (sunHaloSize p) 1.01 40
      else sunHaloSize p)"
  "sunHaloFalloff (ui_widgets inp p) =
     (if CollapsingHeader inp ''Light''
      then SliderFloat (events inp ''haloFalloff'') (sunHaloFalloff p) 0 2048
      else sunHaloFalloff p)"
  by (auto simp: ui_widgets_material_fields ui_widgets_light_fields ui_material_fields
      ui_material_model)



lemma animate_alt:
  "animate vp now w =
     (case cam (app w) of
        None \<Rightarrow> Inl NullPointer
      | Some c \<Rightarrow>
          Inr ([SetProjection c 45 (ratio (width vp) (height vp)) (1 / 10) 50
                  (if double_less (ratio (width vp) (height vp)) 1 then HORIZONTAL else VERTICAL)],
               w\<lparr>previous := Some (case previous w of None \<Rightarrow> now | Some t \<Rightarrow> t)\<rparr>))"
  by (cases "cam (app w)") (simp_all add: animate_def adjust_camera_def Let_def)

lemma animate_part000_alt:
  "animate_part000 (Some c) (Some m) vp now =
     Inr [SetProjection c 45 (ratio (width vp) (height vp)) (1 / 10) 50
            (if double_less (ratio (width vp) (height vp)) 1 then HORIZONTAL else VERTICAL),
          SetTransform (renderable m) now]"
  by (simp add: animate_part000_def adjust_camera_def Let_def)

lemma ratio_finite_iff: "(\<exists>r. ratio w h = Finite r) = (h \<noteq> 0)"
  by (simp add: ratio_cases)

section \<open>The claims\<close>

subsection \<open>C1: what \<^verbatim>\<open>ui\<close> pushes into the engine\<close>

text \<open>
  C1 as stated fails on part 000. Dragging the "lux" slider changes \<open>lightIntensity\<close> in
  the record, yet \<^verbatim>\<open>ui\<close> issues the very same calls as in a frame without any input: the
  seven \<^verbatim>\<open>setParameter\<close> calls of the lit model on \<^verbatim>\<open>app.mi\<close>, and no call that carries the
  light's intensity.
\<close>

theorem part000_light_edit_not_pushed:
  "lightIntensity (snd (ui_part000 11 no_input example_params)) = 110000 \<and>
   lightIntensity (snd (ui_part000 11 drag_lux example_params)) = 50000 \<and>
   fst (ui_part000 11 drag_lux example_params) = fst (ui_part000 11 no_input example_params) \<and>
   fst (ui_part000 11 drag_lux example_params) =
     [SetParameter 11 ''baseColor'' (RgbType_sRGB (69 / 100, 69 / 100, 69 / 100)),
      SetParameter 11 ''roughness'' (Float (6 / 10)),
      SetParameter 11 ''metallic'' (Float 0),
      SetParameter 11 ''reflectance'' (Float (1 / 2)),
      SetParameter 11 ''clearCoat'' (Float 0),
      SetParameter 11 ''clearCoatRoughness'' (Float 0),
      SetParameter 11 ''anisotropy'' (Float 0)]"
  by (simp add: ui_part000_def ui_widgets_no_input ui_widgets_drag_lux Let_def
      materialInstance_part000_def push_part000_def push_lit_def material_consts)
     (simp add: example_params_def default_params_def material_consts)

text \<open>
  C1 (amended): on every frame \<^verbatim>\<open>ui\<close> of part 000 pushes the record into the material
  instance: when the material model after the frame's widgets is lit, it sets baseColor,
  roughness, metallic, reflectance, clearCoat, clearCoatRoughness and anisotropy, in
  this order, on the instance \<^verbatim>\<open>app.mi\<close>, and then alpha if and only if the blending mode
  is not opaque. The calls it issues do not depend on lightColor, lightIntensity,
  lightDirection, sunAngularRadius or the halo terms: the light parameters edited in the
  UI stay in the record. The web sandbox's \<^verbatim>\<open>ui\<close> starts with the calls of
  \<^verbatim>\<open>updateInstances\<close> on the record, then sets castShadows on the renderable, and ends
  with the intensity and the rotation of the indirect light.
\<close>

theorem ui_pushes_material:
  assumes "currentMaterialModel (ui_widgets inp p) = uint MATERIAL_MODEL_LIT"
    and "filamesh (app w) = Some m" and "scene (app w) = Some sc"
    and "skylight (app w) = Some sky"
  shows "ui_part000 mi inp p =
           ([SetParameter mi ''baseColor'' (RgbType_sRGB (color (ui_widgets inp p))),
             SetParameter mi ''roughness'' (Float (roughness (ui_widgets inp p))),
             SetParameter mi ''metallic'' (Float (metallic (ui_widgets inp p))),
             SetParameter mi ''reflectance'' (Float (reflectance (ui_widgets inp p))),
             SetParameter mi ''clearCoat'' (Float (clearCoat (ui_widgets inp p))),
             SetParameter mi ''clearCoatRoughness'' (Float (clearCoatRoughness (ui_widgets inp p))),
             SetParameter mi ''anisotropy'' (Float (anisotropy (ui_widgets inp p)))] @
            (if currentBlending (ui_widgets inp p) = uint BLENDING_OPAQUE then []
             else [SetParameter mi ''alpha'' (Float (alpha (ui_widgets inp p)))]),
            ui_widgets inp p)
         \<and> push_part000 mi (q\<lparr>lightColor := a, lightIntensity := b, lightDirection := c,
              sunAngularRadius := d, sunHaloSize := e, sunHaloFalloff := f\<rparr>) = push_part000 mi q
         \<and> (\<exists>mid w'. ui eng inp w =
              Inr (fst (updateInstances eng (ui_widgets inp (params (app w)))) @ mid @
                   [SetIntensity sky (iblIntensity (ui_widgets inp (params (app w)))),
                    SetRotation sky (iblRotation (ui_widgets inp (params (app w))))], w')
              \<and> SetCastShadows (renderable m) (castShadows (ui_widgets inp (params (app w))))
                   \<in> set mid)"
proof (intro conjI)
  show "ui_part000 mi inp p =
           ([SetParameter mi ''baseColor'' (RgbType_sRGB (color (ui_widgets inp p))),
             SetParameter mi ''roughness'' (Float (roughness (ui_widgets inp p))),
             SetParameter mi ''metallic'' (Float (metallic (ui_widgets inp p))),
             SetParameter mi ''reflectance'' (Float (reflectance (ui_widgets inp p))),
             SetParameter mi ''clearCoat'' (Float (clearCoat (ui_widgets inp p))),
             SetParameter mi ''clearCoatRoughness'' (Float (clearCoatRoughness (ui_widgets inp p))),
             SetParameter mi ''anisotropy'' (Float (anisotropy (ui_widgets inp p)))] @
            (if currentBlending (ui_widgets inp p) = uint BLENDING_OPAQUE then []
             else [SetParameter mi ''alpha'' (Float (alpha (ui_widgets inp p)))]),
            ui_widgets inp p)"
    by (simp only: ui_part000_alt push_part000_lit [OF assms(1)] push_lit_alt)
next
  show "push_part000 mi (q\<lparr>lightColor := a, lightIntensity := b, lightDirection := c,
              sunAngularRadius := d, sunHaloSize := e, sunHaloFalloff := f\<rparr>) = push_part000 mi q"
    by (rule push_part000_light_independent)
next
  let ?p1 = "ui_widgets inp (params (app w))"
  let ?c3 = "[SetCastShadows (renderable m) (castShadows ?p1)]"
  obtain c2 c4 w' where u: "ui eng inp w =
      Inr (fst (updateInstances eng ?p1) @ c2 @ ?c3 @ c4 @
           [SetIntensity sky (iblIntensity ?p1), SetRotation sky (iblRotation ?p1)], w')"
    using ui_ready [OF assms(2,3,4), of eng inp] by blast
  have "ui eng inp w =
      Inr (fst (updateInstances eng ?p1) @ (c2 @ ?c3 @ c4) @
           [SetIntensity sky (iblIntensity ?p1), SetRotation sky (iblRotation ?p1)], w')"
    using u by simp
  moreover have "SetCastShadows (renderable m) (castShadows ?p1) \<in> set (c2 @ ?c3 @ c4)"
    by simp
  ultimately show "\<exists>mid w'. ui eng inp w =
              Inr (fst (updateInstances eng ?p1) @ mid @
                   [SetIntensity sky (iblIntensity ?p1), SetRotation sky (iblRotation ?p1)], w')
              \<and> SetCastShadows (renderable m) (castShadows ?p1) \<in> set mid"
    by blast
qed

text \<open>
  The theorem at a frame in which the user picks the transparent blending: alpha is
  pushed after the seven lit parameters.
\<close>

theorem ui_pushes_material_witness:
  "currentMaterialModel (ui_widgets pick_transparent example_params) = uint MATERIAL_MODEL_LIT \<and>
   filamesh (app example_world) = Some \<lparr>renderable = 3\<rparr> \<and>
   scene (app example_world) = Some 1 \<and> skylight (app example_world) = Some 4 \<and>
   ui_part000 11 pick_transparent example_params =
     ([SetParameter 11 ''baseColor'' (RgbType_sRGB (69 / 100, 69 / 100, 69 / 100)),
       SetParameter 11 ''roughness'' (Float (6 / 10)),
       SetParameter 11 ''metallic'' (Float 0),
       SetParameter 11 ''reflectance'' (Float (1 / 2)),
       SetParameter 11 ''clearCoat'' (Float 0),
       SetParameter 11 ''clearCoatRoughness'' (Float 0),
       SetParameter 11 ''anisotropy'' (Float 0),
       SetParameter 11 ''alpha'' (Float 1)],
      example_params\<lparr>currentBlending := 1\<rparr>)"
proof -
  have h1: "currentMaterialModel (ui_widgets pick_transparent example_params) =
      uint MATERIAL_MODEL_LIT"
    unfolding ui_widgets_pick_transparent
    by (simp add: example_params_def default_params_def)
  have h2: "filamesh (app example_world) = Some \<lparr>renderable = 3\<rparr>"
    and h3: "scene (app example_world) = Some 1"
    and h4: "skylight (app example_world) = Some 4"
    by (simp_all add: example_world_eq)
  show ?thesis
    using h1 h2 h3 h4
      ui_pushes_material [OF h1 h2 h3 h4, where mi = 11]
    by (simp add: ui_widgets_pick_transparent uint_consts)
       (simp add: example_params_def default_params_def)
qed

subsection \<open>C2: material models and material instances\<close>

text \<open>
  C2 as stated fails on part 000: the unlit and the lit model are drawn with the same
  instance, \<^verbatim>\<open>app.mi\<close> (11 here). With "unlit" picked in the combo the only call sets
  baseColor on that instance, and so does the first call for the lit model.
\<close>

theorem part000_one_instance:
  "materialInstance_part000 11 (example_params\<lparr>currentMaterialModel := uint MATERIAL_MODEL_UNLIT\<rparr>) =
   materialInstance_part000 11 (example_params\<lparr>currentMaterialModel := uint MATERIAL_MODEL_LIT\<rparr>) \<and>
   fst (ui_part000 11 pick_unlit example_params) =
     [SetParameter 11 ''baseColor'' (RgbType_sRGB (69 / 100, 69 / 100, 69 / 100))] \<and>
   hd (fst (ui_part000 11 no_input example_params)) =
     SetParameter 11 ''baseColor'' (RgbType_sRGB (69 / 100, 69 / 100, 69 / 100))"
  by (simp add: ui_part000_def ui_widgets_no_input ui_widgets_pick_unlit Let_def
      materialInstance_part000_def push_part000_def push_lit_def push_unlit_def material_consts)
     (simp add: example_params_def default_params_def material_consts)

text \<open>
  C2 (amended): the combo offers exactly the four models unlit, lit, subsurface and
  cloth, at the indices 0, 1, 2 and 3, and a model index within 0..3 stays there under
  the widgets of a frame. The model is mapped to a material index: unlit, subsurface and
  cloth to their own index (\<open>MATERIAL_UNLIT\<close>, \<open>MATERIAL_SUBSURFACE\<close>, \<open>MATERIAL_CLOTH\<close>), lit
  to \<open>MATERIAL_LIT\<close> when blending is opaque, to \<open>MATERIAL_TRANSPARENT\<close> when it is
  transparent and to \<open>MATERIAL_FADE\<close> when it is fade. Part 000 computes this index and
  then draws every model with its one instance \<^verbatim>\<open>app.mi\<close>. The web sandbox's \<^verbatim>\<open>setup\<close> decodes
  the mesh with the instance stored at index \<open>MATERIAL_LIT\<close>.
\<close>

theorem material_of_model:
  assumes "0 \<le> currentMaterialModel p" and "currentMaterialModel p < 4"
  shows "model_items ! unat MATERIAL_MODEL_UNLIT = ''unlit'' \<and>
         model_items ! unat MATERIAL_MODEL_LIT = ''lit'' \<and>
         model_items ! unat MATERIAL_MODEL_SUBSURFACE = ''subsurface'' \<and>
         model_items ! unat MATERIAL_MODEL_CLOTH = ''cloth'' \<and>
         length model_items = 4 \<and>
         0 \<le> currentMaterialModel (ui_widgets inp p) \<and>
         currentMaterialModel (ui_widgets inp p) < 4 \<and>
         material (p\<lparr>currentMaterialModel := uint MATERIAL_MODEL_UNLIT\<rparr>) = uint MATERIAL_UNLIT \<and>
         material (p\<lparr>currentMaterialModel := uint MATERIAL_MODEL_SUBSURFACE\<rparr>) =
           uint MATERIAL_SUBSURFACE \<and>
         material (p\<lparr>currentMaterialModel := uint MATERIAL_MODEL_CLOTH\<rparr>) = uint MATERIAL_CLOTH \<and>
         material (p\<lparr>currentMaterialModel := uint MATERIAL_MODEL_LIT,
                      currentBlending := uint BLENDING_OPAQUE\<rparr>) = uint MATERIAL_LIT \<and>
         material (p\<lparr>currentMaterialModel := uint MATERIAL_MODEL_LIT,
                      currentBlending := uint BLENDING_TRANSPARENT\<rparr>) = uint MATERIAL_TRANSPARENT \<and>
         material (p\<lparr>currentMaterialModel := uint MATERIAL_MODEL_LIT,
                      currentBlending := uint BLENDING_FADE\<rparr>) = uint MATERIAL_FADE \<and>
         materialInstance_part000 app_mi p = app_mi \<and>
         filamesh (app (sandbox_setup eng w)) =
           Some (decodeMesh eng (case mesh w of None \<Rightarrow> getRawFile eng ''mesh'' | Some a \<Rightarrow> a)
                   (materialInstance (createInstances eng (setup_params (params (app w))))
                      (unat MATERIAL_LIT)))"
proof -
  have items: "model_items ! unat MATERIAL_MODEL_UNLIT = ''unlit'' \<and>
         model_items ! unat MATERIAL_MODEL_LIT = ''lit'' \<and>
         model_items ! unat MATERIAL_MODEL_SUBSURFACE = ''subsurface'' \<and>
         model_items ! unat MATERIAL_MODEL_CLOTH = ''cloth'' \<and>
         length model_items = 4"
    by (simp add: model_items_def material_consts)
  have "0 \<le> Combo (events inp ''model'') (currentMaterialModel p) model_items \<and>
        Combo (events inp ''model'') (currentMaterialModel p) model_items < int (length model_items)"
    using assms by (intro Combo_range) (simp_all add: model_items_def)
  then have range: "0 \<le> currentMaterialModel (ui_widgets inp p) \<and>
         currentMaterialModel (ui_widgets inp p) < 4"
    using assms by (simp add: ui_widgets_model model_items_def)
  have index: "material (p\<lparr>currentMaterialModel := uint MATERIAL_MODEL_UNLIT\<rparr>) = uint MATERIAL_UNLIT \<and>
         material (p\<lparr>currentMaterialModel := uint MATERIAL_MODEL_SUBSURFACE\<rparr>) =
           uint MATERIAL_SUBSURFACE \<and>
         material (p\<lparr>currentMaterialModel := uint MATERIAL_MODEL_CLOTH\<rparr>) = uint MATERIAL_CLOTH \<and>
         material (p\<lparr>currentMaterialModel := uint MATERIAL_MODEL_LIT,
                      currentBlending := uint BLENDING_OPAQUE\<rparr>) = uint MATERIAL_LIT \<and>
         material (p\<lparr>currentMaterialModel := uint MATERIAL_MODEL_LIT,
                      currentBlending := uint BLENDING_TRANSPARENT\<rparr>) = uint MATERIAL_TRANSPARENT \<and>
         material (p\<lparr>currentMaterialModel := uint MATERIAL_MODEL_LIT,
                      currentBlending := uint BLENDING_FADE\<rparr>) = uint MATERIAL_FADE"
    by (simp add: material_def uint_consts Let_def)
  have inst: "materialInstance_part000 app_mi p = app_mi"
    by (simp add: materialInstance_part000_def Let_def)
  from items range index inst sandbox_setup_handles(1) [of eng w] show ?thesis by blast
qed

text \<open>The theorem at the default record, with "cloth" picked in the combo.\<close>

theorem material_of_model_witness:
  "0 \<le> currentMaterialModel example_params \<and> currentMaterialModel example_params < 4 \<and>
   0 \<le> currentMaterialModel (ui_widgets pick_cloth example_params) \<and>
   currentMaterialModel (ui_widgets pick_cloth example_params) < 4 \<and>
   material (example_params\<lparr>currentMaterialModel := 1, currentBlending := 2\<rparr>) = 5 \<and>
   material (example_params\<lparr>currentMaterialModel := 3\<rparr>) = 3 \<and>
   materialInstance_part000 11 example_params = 11"
proof -
  have h: "0 \<le> currentMaterialModel example_params" "currentMaterialModel example_params < 4"
    by (simp_all add: example_params_def default_params_def uint_consts)
  show ?thesis
    using h material_of_model [OF h, of pick_cloth 11] by (simp add: uint_consts)
qed

subsection \<open>C3: the ranges of the sliders\<close>

text \<open>
  C3 as stated fails in its second half, "this is the only invariant on the record". The
  default record with \<open>hasDirectionalLight\<close> off and \<open>directionalLightEnabled\<close> on lies
  within every slider range, and yet no call of \<^verbatim>\<open>ui\<close> of the web sandbox returns it: the
  record also obeys \<open>hasDirectionalLight = directionalLightEnabled\<close> after every call.
\<close>

theorem ranges_not_the_only_invariant:
  "in_range unsynced_params \<and>
   \<not> (\<exists>eng inp w calls w'. ui eng inp w = Inr (calls, w') \<and> params (app w') = unsynced_params)"
proof -
  have r: "in_range unsynced_params"
    by (simp add: unsynced_params_def default_params_def in_range_def in_interval_def
        in_interval3_def)
  have d: "hasDirectionalLight unsynced_params \<noteq> directionalLightEnabled unsynced_params"
    by (simp add: unsynced_params_def default_params_def)
  have "params (app w') \<noteq> unsynced_params" if "ui eng inp w = Inr (calls, w')"
    for eng inp w calls w'
    using ui_flag_follows_toggle [OF that] d by auto
  with r show ?thesis by blast
qed

text \<open>
  C3 (amended): every slider-controlled field of the parameter record stays within its
  UI-imposed range under every \<^verbatim>\<open>ui\<close> step that starts within the ranges, as the record
  written by \<^verbatim>\<open>setup\<close> does: alpha, roughness, metallic, reflectance, clearCoat,
  clearCoatRoughness and thickness in [0,1], anisotropy in [-1,1], subsurfacePower in
  [1,24], lightIntensity in [0,150000], each lightDirection component in [-1,1],
  sunAngularRadius in [0.1,10], sunHaloSize in [1.01,40], sunHaloFalloff in [0,2048] and
  iblIntensity in [0,50000]. This holds for the widgets, for \<^verbatim>\<open>ui\<close> of part 000 and for \<^verbatim>\<open>ui\<close>
  of the web sandbox, which returns on an initialised state. The ranges are not the only
  invariant: after every \<^verbatim>\<open>ui\<close> call of the web sandbox \<open>hasDirectionalLight\<close> equals
  \<open>directionalLightEnabled\<close>.
\<close>

theorem slider_ranges_preserved:
  assumes "in_range (params (app w))"
    and "filamesh (app w) = Some m" and "scene (app w) = Some sc"
    and "skylight (app w) = Some sky"
  shows "in_range (ui_widgets inp (params (app w))) \<and>
         in_range (snd (ui_part000 mi inp (params (app w)))) \<and>
         (\<exists>calls w'. ui eng inp w = Inr (calls, w') \<and> in_range (params (app w')) \<and>
            hasDirectionalLight (params (app w')) = directionalLightEnabled (params (app w'))) \<and>
         in_range (default_params h l ms) \<and>
         in_range (setup_params (default_params h l ms))"
proof -
  have a: "in_range (ui_widgets inp (params (app w)))"
    using assms(1) by (rule in_range_ui_widgets)
  have b: "in_range (snd (ui_part000 mi inp (params (app w))))"
    using a by (simp add: ui_part000_alt)
  obtain calls w' where u: "ui eng inp w = Inr (calls, w')"
    and p: "params (app w') = (ui_widgets inp (params (app w)))
              \<lparr>hasDirectionalLight := directionalLightEnabled (ui_widgets inp (params (app w)))\<rparr>"
    using ui_ready [OF assms(2,3,4), of eng inp] by simp
  have c: "in_range (params (app w'))"
    unfolding p using a by (rule in_range_other_update)
  have d: "hasDirectionalLight (params (app w')) = directionalLightEnabled (params (app w'))"
    using u by (rule ui_flag_follows_toggle)
  from a b u c d in_range_default_params in_range_setup_params show ?thesis by blast
qed

text \<open>
  The theorem at the state after \<^verbatim>\<open>setup\<close>, in a frame in which the user drags "lux" beyond
  the slider's end: the stored intensity is the upper bound.
\<close>

theorem slider_ranges_preserved_witness:
  "in_range (params (app example_world)) \<and>
   filamesh (app example_world) = Some \<lparr>renderable = 3\<rparr> \<and>
   scene (app example_world) = Some 1 \<and> skylight (app example_world) = Some 4 \<and>
   in_range (ui_widgets drag_lux_beyond (params (app example_world))) \<and>
   lightIntensity (ui_widgets drag_lux_beyond (params (app example_world))) = 150000"
proof -
  have h1: "filamesh (app example_world) = Some \<lparr>renderable = 3\<rparr>"
    and h2: "scene (app example_world) = Some 1"
    and h3: "skylight (app example_world) = Some 4"
    by (simp_all add: example_world_eq)
  have h0: "in_range (params (app example_world))"
    using in_range_setup_params [of True 0 "\<lambda>i. 0"]
    by (simp add: example_world_eq example_params_def in_range_def)
  have v: "lightIntensity (ui_widgets drag_lux_beyond (params (app example_world))) = 150000"
    by (simp add: ui_widgets_def CollapsingHeader_def drag_lux_beyond_def ui_light_def
        SliderFloat_def Let_def)
  show ?thesis
    using h0 h1 h2 h3 v slider_ranges_preserved [OF h0 h1 h2 h3, of drag_lux_beyond]
    by simp
qed

subsection \<open>C4: the initial values of the record\<close>

text \<open>
  C4: \<^verbatim>\<open>setup\<close> of the web sandbox hands to \<^verbatim>\<open>createInstances\<close> the default record with
  iblIntensity = 10000, lightDirection = (0, 0, -1), iblRotation = pi, clearCoat = 0.7,
  metallic = 0.25, reflectance = 0.75 and color = (158/255, 118/255, 74/255); every
  other field has its declared default (roughness = 0.6, alpha = 1.0, thickness = 1.0,
  subsurfacePower = 12.234, castShadows = true, and so on). No other code path
  reinitialises the record: a frame without user input leaves it as it is under the
  widgets, \<^verbatim>\<open>ui\<close> changes it only through the widgets and the \<open>hasDirectionalLight\<close> flag,
  and \<^verbatim>\<open>animate\<close> does not change it.
\<close>

theorem setup_initialises_params:
  "params (app (sandbox_setup eng (world0 h l ms))) =
     createInstances eng
       ((default_params h l ms)\<lparr>iblIntensity := 10000, lightDirection := (0, 0, - 1),
          iblRotation := pi, clearCoat := 0.7, metallic := 0.25, reflectance := 0.75,
          color := (158 / 255, 118 / 255, 74 / 255)\<rparr>) \<and>
   (default_params h l ms)\<lparr>iblIntensity := 10000, lightDirection := (0, 0, - 1),
          iblRotation := pi, clearCoat := 0.7, metallic := 0.25, reflectance := 0.75,
          color := (158 / 255, 118 / 255, 74 / 255)\<rparr> =
     \<lparr> color = (158 / 255, 118 / 255, 74 / 255), alpha = 1.0, roughness = 0.6,
       metallic = 0.25, reflectance = 0.75, clearCoat = 0.7, clearCoatRoughness = 0,
       anisotropy = 0, thickness = 1.0, subsurfacePower = 12.234,
       subsurfaceColor = (0, 0, 0), sheenColor = (0.83, 0, 0),
       currentMaterialModel = 1, currentBlending = 0, castShadows = True,
       lightColor = (0.98, 0.92, 0.89), lightIntensity = 110000,
       lightDirection = (0, 0, - 1), iblIntensity = 10000, iblRotation = pi,
       sunHaloSize = 10, sunHaloFalloff = 80, sunAngularRadius = 1.9,
       directionalLightEnabled = True, hasDirectionalLight = h, light = l,
       materialInstance = ms \<rparr> \<and>
   ui_widgets \<lparr>header_open = ho, events = (\<lambda>l. None)\<rparr> p = p \<and>
   (case ui eng inp w of
      Inl e \<Rightarrow> True
    | Inr (c, w') \<Rightarrow>
        params (app w') =
          (ui_widgets inp (params (app w)))
            \<lparr>hasDirectionalLight := directionalLightEnabled (ui_widgets inp (params (app w)))\<rparr>) \<and>
   (case animate vp now w of Inl e \<Rightarrow> True | Inr (c, w') \<Rightarrow> params (app w') = params (app w))"
proof -
  have a: "params (app (sandbox_setup eng (world0 h l ms))) =
     createInstances eng
       ((default_params h l ms)\<lparr>iblIntensity := 10000, lightDirection := (0, 0, - 1),
          iblRotation := pi, clearCoat := 0.7, metallic := 0.25, reflectance := 0.75,
          color := (158 / 255, 118 / 255, 74 / 255)\<rparr>)"
    by (simp add: params_sandbox_setup setup_params_overrides world0_def app0_def)
  have b: "(default_params h l ms)\<lparr>iblIntensity := 10000, lightDirection := (0, 0, - 1),
          iblRotation := pi, clearCoat := 0.7, metallic := 0.25, reflectance := 0.75,
          color := (158 / 255, 118 / 255, 74 / 255)\<rparr> =
     \<lparr> color = (158 / 255, 118 / 255, 74 / 255), alpha = 1.0, roughness = 0.6,
       metallic = 0.25, reflectance = 0.75, clearCoat = 0.7, clearCoatRoughness = 0,
       anisotropy = 0, thickness = 1.0, subsurfacePower = 12.234,
       subsurfaceColor = (0, 0, 0), sheenColor = (0.83, 0, 0),
       currentMaterialModel = 1, currentBlending = 0, castShadows = True,
       lightColor = (0.98, 0.92, 0.89), lightIntensity = 110000,
       lightDirection = (0, 0, - 1), iblIntensity = 10000, iblRotation = pi,
       sunHaloSize = 10, sunHaloFalloff = 80, sunAngularRadius = 1.9,
       directionalLightEnabled = True, hasDirectionalLight = h, light = l,
       materialInstance = ms \<rparr>"
    by (simp add: default_params_def uint_consts)
  have c: "ui_widgets \<lparr>header_open = ho, events = (\<lambda>l. None)\<rparr> p = p"
    by (rule ui_widgets_idle) simp
  show ?thesis by (intro conjI a b c ui_params_after animate_params_after)
qed

text \<open>The theorem at the concrete engine: some fields of the record after \<^verbatim>\<open>setup\<close>.\<close>

theorem setup_initialises_params_witness:
  "roughness (params (app example_world)) = 0.6 \<and>
   clearCoat (params (app example_world)) = 0.7 \<and>
   iblRotation (params (app example_world)) = pi \<and>
   lightDirection (params (app example_world)) = (0, 0, - 1) \<and>
   color (params (app example_world)) = (158 / 255, 118 / 255, 74 / 255) \<and>
   castShadows (params (app example_world)) \<and>
   light (params (app example_world)) = 6"
proof -
  have "params (app example_world) =
     createInstances example_engine
       ((default_params True 0 (\<lambda>i. 0))\<lparr>iblIntensity := 10000, lightDirection := (0, 0, - 1),
          iblRotation := pi, clearCoat := 0.7, metallic := 0.25, reflectance := 0.75,
          color := (158 / 255, 118 / 255, 74 / 255)\<rparr>)"
    unfolding example_world_def
    by (rule setup_initialises_params [of example_engine True 0 "\<lambda>i. 0", THEN conjunct1])
  then show ?thesis
    by (simp add: example_engine_def default_params_def)
qed

subsection \<open>C5: the state the program keeps\<close>

text \<open>
  C5 as stated fails twice. Picking "cloth" in the combo changes the record although
  every field the claim lists (color, roughness, metallic, reflectance, the clear-coat
  and subsurface terms, sheen color, light direction, intensity and angle, IBL
  intensity and rotation, the two toggles) keeps its value: the record has more fields
  than those. And \<^verbatim>\<open>setup\<close> writes state outside the record: in the web sandbox the camera
  and the scene of \<^verbatim>\<open>app\<close> are null before it and set after it, and so are the material
  instance and the sun of \<^verbatim>\<open>app\<close> in part 000.
\<close>

theorem state_beyond_the_listed_fields:
  "ui_widgets pick_cloth example_params \<noteq> example_params \<and>
   color (ui_widgets pick_cloth example_params) = color example_params \<and>
   roughness (ui_widgets pick_cloth example_params) = roughness example_params \<and>
   metallic (ui_widgets pick_cloth example_params) = metallic example_params \<and>
   reflectance (ui_widgets pick_cloth example_params) = reflectance example_params \<and>
   clearCoat (ui_widgets pick_cloth example_params) = clearCoat example_params \<and>
   clearCoatRoughness (ui_widgets pick_cloth example_params) = clearCoatRoughness example_params \<and>
   thickness (ui_widgets pick_cloth example_params) = thickness example_params \<and>
   subsurfacePower (ui_widgets pick_cloth example_params) = subsurfacePower example_params \<and>
   subsurfaceColor (ui_widgets pick_cloth example_params) = subsurfaceColor example_params \<and>
   sheenColor (ui_widgets pick_cloth example_params) = sheenColor example_params \<and>
   lightDirection (ui_widgets pick_cloth example_params) = lightDirection example_params \<and>
   lightIntensity (ui_widgets pick_cloth example_params) = lightIntensity example_params \<and>
   sunAngularRadius (ui_widgets pick_cloth example_params) = sunAngularRadius example_params \<and>
   iblIntensity (ui_widgets pick_cloth example_params) = iblIntensity example_params \<and>
   iblRotation (ui_widgets pick_cloth example_params) = iblRotation example_params \<and>
   castShadows (ui_widgets pick_cloth example_params) = castShadows example_params \<and>
   directionalLightEnabled (ui_widgets pick_cloth example_params) = directionalLightEnabled example_params \<and>
   cam (app (world0 True 0 (\<lambda>i. 0))) = None \<and> cam (app example_world) = Some 5 \<and>
   scene (app (world0 True 0 (\<lambda>i. 0))) = None \<and> scene (app example_world) = Some 1 \<and>
   mi_000 (app_000 world0_000) = None \<and> mi_000 (app_000 example_world_000) = Some 11 \<and>
   sun_000 (app_000 world0_000) = None \<and> sun_000 (app_000 example_world_000) = Some 6"
proof -
  have "currentMaterialModel (ui_widgets pick_cloth example_params) \<noteq>
        currentMaterialModel example_params"
    unfolding ui_widgets_pick_cloth
    by (simp add: example_params_def default_params_def uint_consts)
  then have "ui_widgets pick_cloth example_params \<noteq> example_params"
    by auto
  then show ?thesis
    unfolding ui_widgets_pick_cloth
    by (simp add: example_world_eq world0_def app0_def example_world_000_eq world0_000_def)
qed

text \<open>
  C5 (amended): the parameter record is mutable state of this code, but its fields are
  not only those the claim lists, and it is not the only state. Besides the listed
  fields \<^verbatim>\<open>ui\<close> writes currentMaterialModel, currentBlending, alpha, anisotropy, lightColor,
  sunHaloSize and sunHaloFalloff, each from its own widget while that widget is shown.
  Outside the record the static \<^verbatim>\<open>app\<close> keeps engine handles that \<^verbatim>\<open>setup\<close> assigns and that
  neither \<^verbatim>\<open>ui\<close> nor \<^verbatim>\<open>animate\<close> changes: filamesh, cam, skylight and scene in the web
  sandbox; filamesh, mat, mi, cam and sun in part 000. In both snapshots \<^verbatim>\<open>setup\<close> keeps the
  mesh asset in a function-local static, and \<^verbatim>\<open>animate\<close> keeps the time of its first call in
  the static \<^verbatim>\<open>previous\<close> and changes nothing else.
\<close>

theorem sandbox_state:
  "(currentMaterialModel (ui_widgets inp p) =
     (if CollapsingHeader inp ''Material''
      then Combo (events inp ''model'') (currentMaterialModel p) model_items
      else currentMaterialModel p)) \<and>
   (currentBlending (ui_widgets inp p) =
     (if CollapsingHeader inp ''Material'' \<and>
         currentMaterialModel (ui_widgets inp p) = uint MATERIAL_MODEL_LIT
      then Combo (events inp ''blending'') (currentBlending p) blending_items
      else currentBlending p)) \<and>
   (alpha (ui_widgets inp p) =
     (if CollapsingHeader inp ''Material'' \<and>
         uint MATERIAL_MODEL_UNLIT < currentMaterialModel (ui_widgets inp p) \<and>
         (currentBlending (ui_widgets inp p) = uint BLENDING_TRANSPARENT \<or>
          currentBlending (ui_widgets inp p) = uint BLENDING_FADE)
      then SliderFloat (events inp ''alpha'') (alpha p) 0 1 else alpha p)) \<and>
   (anisotropy (ui_widgets inp p) =
     (if CollapsingHeader inp ''Material'' \<and>
         uint MATERIAL_MODEL_UNLIT < currentMaterialModel (ui_widgets inp p) \<and>
         currentMaterialModel (ui_widgets inp p) \<noteq> uint MATERIAL_MODEL_CLOTH \<and>
         currentMaterialModel (ui_widgets inp p) \<noteq> uint MATERIAL_MODEL_SUBSURFACE
      then SliderFloat (events inp ''anisotropy'') (anisotropy p) (- 1) 1 else anisotropy p)) \<and>
   (lightColor (ui_widgets inp p) =
     (if CollapsingHeader inp ''Light'' then ColorEdit3 (events inp ''color'') (lightColor p)
      else lightColor p)) \<and>
   (sunHaloSize (ui_widgets inp p) =
     (if CollapsingHeader inp ''Light''
      then SliderFloat (events inp ''haloSize'') (sunHaloSize p) 1.01 40
      else sunHaloSize p)) \<and>
   (sunHaloFalloff (ui_widgets inp p) =
     (if CollapsingHeader inp ''Light''
      then SliderFloat (events inp ''haloFalloff'') (sunHaloFalloff p) 0 2048
      else sunHaloFalloff p)) \<and>
   (filamesh (app (sandbox_setup eng w)) =
     Some (decodeMesh eng (case mesh w of None \<Rightarrow> getRawFile eng ''mesh'' | Some a \<Rightarrow> a)
             (materialInstance (createInstances eng (setup_params (params (app w))))
                (unat MATERIAL_LIT))) \<and>
    cam (app (sandbox_setup eng w)) = Some (createCamera eng) \<and>
    skylight (app (sandbox_setup eng w)) = Some (getSkyLight eng ''pillars_2k'') \<and>
    scene (app (sandbox_setup eng w)) = Some (the_scene eng) \<and>
    mesh (sandbox_setup eng w) =
      Some (case mesh w of None \<Rightarrow> getRawFile eng ''mesh'' | Some a \<Rightarrow> a) \<and>
    previous (sandbox_setup eng w) = previous w) \<and>
   (case ui eng inp w of
      Inl e \<Rightarrow> True
    | Inr (c, w') \<Rightarrow>
        filamesh (app w') = filamesh (app w) \<and> cam (app w') = cam (app w) \<and>
        skylight (app w') = skylight (app w) \<and> scene (app w') = scene (app w) \<and>
        previous w' = previous w \<and> mesh w' = mesh w) \<and>
   (case animate vp now w of
      Inl e \<Rightarrow> True
    | Inr (c, w') \<Rightarrow>
        app w' = app w \<and> mesh w' = mesh w \<and> scene_entities w' = scene_entities w \<and>
        previous w' = Some (case previous w of None \<Rightarrow> now | Some t \<Rightarrow> t)) \<and>
   (mat_000 (app_000 (setup_000 eng0 v)) = Some (build_000 eng0) \<and>
    mi_000 (app_000 (setup_000 eng0 v)) = Some (createInstance_000 eng0 (build_000 eng0)) \<and>
    filamesh_000 (app_000 (setup_000 eng0 v)) =
      Some (decodeMesh_000 eng0
              (case mesh_000 v of None \<Rightarrow> getRawFile_000 eng0 ''mesh'' | Some a \<Rightarrow> a)
              (createInstance_000 eng0 (build_000 eng0))) \<and>
    sun_000 (app_000 (setup_000 eng0 v)) = Some (create_000 eng0) \<and>
    cam_000 (app_000 (setup_000 eng0 v)) = Some (createCamera_000 eng0) \<and>
    params_000 (app_000 (setup_000 eng0 v)) = params_000 (app_000 v) \<and>
    mesh_000 (setup_000 eng0 v) =
      Some (case mesh_000 v of None \<Rightarrow> getRawFile_000 eng0 ''mesh'' | Some a \<Rightarrow> a) \<and>
    previous_000 (setup_000 eng0 v) = previous_000 v) \<and>
   (case ui_000 inp v of
      Inl e \<Rightarrow> True
    | Inr (c, v') \<Rightarrow>
        filamesh_000 (app_000 v') = filamesh_000 (app_000 v) \<and>
        mat_000 (app_000 v') = mat_000 (app_000 v) \<and>
        mi_000 (app_000 v') = mi_000 (app_000 v) \<and>
        cam_000 (app_000 v') = cam_000 (app_000 v) \<and>
        sun_000 (app_000 v') = sun_000 (app_000 v) \<and>
        params_000 (app_000 v') = ui_widgets inp (params_000 (app_000 v)) \<and>
        previous_000 v' = previous_000 v \<and> mesh_000 v' = mesh_000 v \<and>
        scene_entities_000 v' = scene_entities_000 v) \<and>
   (case animate_000 vp now v of
      Inl e \<Rightarrow> True
    | Inr (c, v') \<Rightarrow>
        app_000 v' = app_000 v \<and> mesh_000 v' = mesh_000 v \<and>
        scene_entities_000 v' = scene_entities_000 v \<and>
        previous_000 v' = Some (case previous_000 v of None \<Rightarrow> now | Some t \<Rightarrow> t))"
  by (intro conjI ui_widgets_writes sandbox_setup_handles ui_handles_after animate_state_after
      setup_000_handles ui_000_after animate_000_after)

text \<open>
  The theorem at the states after \<^verbatim>\<open>setup\<close>: \<^verbatim>\<open>ui\<close> returns in both snapshots and the handles
  are those \<^verbatim>\<open>setup\<close> stored.
\<close>

theorem sandbox_state_witness:
  "(\<exists>c w'. ui example_engine click_enabled example_world = Inr (c, w') \<and>
      filamesh (app w') = Some \<lparr>renderable = 3\<rparr> \<and> cam (app w') = Some 5 \<and>
      skylight (app w') = Some 4 \<and> scene (app w') = Some 1 \<and>
      previous w' = None \<and> mesh w' = Some 2) \<and>
   (\<exists>c v'. ui_000 pick_cloth example_world_000 = Inr (c, v') \<and>
      filamesh_000 (app_000 v') = Some \<lparr>renderable = 3\<rparr> \<and> mat_000 (app_000 v') = Some 7 \<and>
      mi_000 (app_000 v') = Some 11 \<and> cam_000 (app_000 v') = Some 5 \<and>
      sun_000 (app_000 v') = Some 6 \<and>
      currentMaterialModel (params_000 (app_000 v')) = 3)"
proof -
  note st = sandbox_state [where eng = example_engine and w = example_world and
      inp = click_enabled and v = example_world_000]
  note st0 = sandbox_state [where inp = pick_cloth and v = example_world_000]
  have h1: "filamesh (app example_world) = Some \<lparr>renderable = 3\<rparr>"
    and h2: "scene (app example_world) = Some 1"
    and h3: "skylight (app example_world) = Some 4"
    by (simp_all add: example_world_eq)
  obtain c w' where u: "ui example_engine click_enabled example_world = Inr (c, w')"
    using ui_ready [OF h1 h2 h3, of example_engine click_enabled] by simp
  have "case ui example_engine click_enabled example_world of
      Inl e \<Rightarrow> True
    | Inr (c, w') \<Rightarrow>
        filamesh (app w') = filamesh (app example_world) \<and>
        cam (app w') = cam (app example_world) \<and>
        skylight (app w') = skylight (app example_world) \<and>
        scene (app w') = scene (app example_world) \<and>
        previous w' = previous example_world \<and> mesh w' = mesh example_world"
    by (rule st [THEN conjunct2, THEN conjunct2, THEN conjunct2, THEN conjunct2,
          THEN conjunct2, THEN conjunct2, THEN conjunct2, THEN conjunct2, THEN conjunct1])
  then have a: "filamesh (app w') = Some \<lparr>renderable = 3\<rparr> \<and> cam (app w') = Some 5 \<and>
      skylight (app w') = Some 4 \<and> scene (app w') = Some 1 \<and>
      previous w' = None \<and> mesh w' = Some 2"
    unfolding u by (simp add: example_world_eq)
  have m: "mi_000 (app_000 example_world_000) = Some 11"
    by (simp add: example_world_000_eq)
  obtain c0 v' where u0: "ui_000 pick_cloth example_world_000 = Inr (c0, v')"
    using ui_000_Some [OF m, of pick_cloth] by simp
  have "case ui_000 pick_cloth example_world_000 of
      Inl e \<Rightarrow> True
    | Inr (c, v') \<Rightarrow>
        filamesh_000 (app_000 v') = filamesh_000 (app_000 example_world_000) \<and>
        mat_000 (app_000 v') = mat_000 (app_000 example_world_000) \<and>
        mi_000 (app_000 v') = mi_000 (app_000 example_world_000) \<and>
        cam_000 (app_000 v') = cam_000 (app_000 example_world_000) \<and>
        sun_000 (app_000 v') = sun_000 (app_000 example_world_000) \<and>
        params_000 (app_000 v') = ui_widgets pick_cloth (params_000 (app_000 example_world_000)) \<and>
        previous_000 v' = previous_000 example_world_000 \<and>
        mesh_000 v' = mesh_000 example_world_000 \<and>
        scene_entities_000 v' = scene_entities_000 example_world_000"
    by (rule st0 [THEN conjunct2, THEN conjunct2, THEN conjunct2, THEN conjunct2,
          THEN conjunct2, THEN conjunct2, THEN conjunct2, THEN conjunct2, THEN conjunct2,
          THEN conjunct2, THEN conjunct2, THEN conjunct1])
  then have b: "filamesh_000 (app_000 v') = Some \<lparr>renderable = 3\<rparr> \<and>
      mat_000 (app_000 v') = Some 7 \<and> mi_000 (app_000 v') = Some 11 \<and>
      cam_000 (app_000 v') = Some 5 \<and> sun_000 (app_000 v') = Some 6 \<and>
      currentMaterialModel (params_000 (app_000 v')) = 3"
    unfolding u0 by (simp add: example_world_000_eq ui_widgets_pick_cloth)
  from u a u0 b show ?thesis by blast
qed

subsection \<open>C6: the order of the callbacks\<close>

text \<open>
  C6: in every run the setup callback is invoked exactly once, before any invocation of
  \<^verbatim>\<open>animate\<close> or \<^verbatim>\<open>ui\<close>, and thereafter \<^verbatim>\<open>animate\<close> and \<^verbatim>\<open>ui\<close> are invoked, in this order, on
  every frame. The run is sequential: each callback starts from the state the previous
  one returned. For \<^verbatim>\<open>launch\<close> this reads: a run without frames is \<^verbatim>\<open>setup\<close> alone, and a run
  with one more frame is the shorter run followed by \<^verbatim>\<open>animate\<close> and then \<^verbatim>\<open>ui\<close> for that
  frame.
\<close>

theorem run_schedule:
  "run note_setup note_animate note_ui frames [] =
     Setup_called # concat (map (\<lambda>f. [Animate_called f, Ui_called f]) frames) \<and>
   count_list (run note_setup note_animate note_ui frames []) Setup_called = 1 \<and>
   launch eng [] w = Inr ([], sandbox_setup eng w) \<and>
   launch eng (fs @ [f]) w = ui_callback eng f (animate_callback f (launch eng fs w))"
  by (simp add: run_def run_frames_note note_setup_def count_frames_setup launch_Nil launch_snoc)

subsection \<open>C7: the fragment shader\<close>

text \<open>
  C7: the shader declares version 310 es, and for every fragment \<^verbatim>\<open>FragColor\<close> is the sum of
  six samples: \<^verbatim>\<open>uTexture[2]\<close> and, twice, \<^verbatim>\<open>uTexture[1]\<close> at the offset coordinate
  \<^verbatim>\<open>vTex + 1/textureSize(uTexture[1], 0) + 1/textureSize(uTexture[2], 1)\<close>, and one sample
  each of \<^verbatim>\<open>uTextureArray[3]\<close>, \<^verbatim>\<open>uTextureCube[1]\<close> and \<^verbatim>\<open>uTexture3D[2]\<close> at \<^verbatim>\<open>vTex3\<close>. The sum is
  taken from left to right, whatever the arithmetic of the vector types.
\<close>

theorem shader_sum:
  "shader_version = (310, ''es'') \<and>
   shader_main s =
     foldl (+) (uTexture s 2 (shader_tmp95 s))
       [uTexture s 1 (shader_tmp95 s), uTexture s 1 (shader_tmp95 s),
        uTextureArray s 3 (vTex3 s), uTextureCube s 1 (vTex3 s), uTexture3D s 2 (vTex3 s)]
   \<and> shader_tmp95 s = vTex s + 1 / uTexture_size s 1 0 + 1 / uTexture_size s 2 1"
  by (simp add: shader_version_def shader_main_def shader_tmp95_def Let_def)

subsection \<open>C8: the directional light follows its toggle\<close>

text \<open>
  C8: a call of \<^verbatim>\<open>ui\<close> on a state that \<^verbatim>\<open>setup\<close> has initialised, in which the sun is in the
  scene exactly when \<open>hasDirectionalLight\<close> says so, returns; afterwards
  \<open>hasDirectionalLight\<close> equals the toggle \<open>directionalLightEnabled\<close>, and the sun is in the
  scene if and only if the toggle is on. Between the castShadows call and the calls on
  the indirect light, \<^verbatim>\<open>ui\<close> issues no scene call when the frame's toggle equals the flag,
  and otherwise exactly one: \<^verbatim>\<open>addEntity\<close> when the toggle is on, \<^verbatim>\<open>remove\<close> when it is off.
  The hypothesis on the scene holds at every \<^verbatim>\<open>ui\<close> call of a run in which the flag is on
  when \<^verbatim>\<open>setup\<close> adds the sun (lemmas \<open>launch_keeps_invariant\<close> and
  \<open>launch_light_follows_toggle\<close>).
\<close>

theorem ui_syncs_directional_light:
  assumes "filamesh (app w) = Some m" and "scene (app w) = Some sc"
    and "skylight (app w) = Some sky"
    and "(light (params (app w)) \<in> scene_entities w) = hasDirectionalLight (params (app w))"
  shows "\<exists>c4 w'.
           ui eng inp w =
             Inr (fst (updateInstances eng (ui_widgets inp (params (app w)))) @
                  map (\<lambda>i. SetMaterialInstanceAt (renderable m) i
                             (snd (updateInstances eng (ui_widgets inp (params (app w))))))
                    [0 ..< getPrimitiveCount eng (renderable m)] @
                  [SetCastShadows (renderable m) (castShadows (ui_widgets inp (params (app w))))] @
                  c4 @
                  [SetIntensity sky (iblIntensity (ui_widgets inp (params (app w)))),
                   SetRotation sky (iblRotation (ui_widgets inp (params (app w))))], w') \<and>
           c4 = (if directionalLightEnabled (ui_widgets inp (params (app w))) =
                    hasDirectionalLight (params (app w)) then []
                 else if directionalLightEnabled (ui_widgets inp (params (app w)))
                 then [AddEntity sc (light (params (app w)))]
                 else [Remove sc (light (params (app w)))]) \<and>
           directionalLightEnabled (params (app w')) =
             directionalLightEnabled (ui_widgets inp (params (app w))) \<and>
           hasDirectionalLight (params (app w')) = directionalLightEnabled (params (app w')) \<and>
           (light (params (app w')) \<in> scene_entities w') =
             directionalLightEnabled (params (app w'))"
proof -
  let ?p1 = "ui_widgets inp (params (app w))"
  note k = ui_widgets_keeps [of inp "params (app w)"]
  show ?thesis
  proof (cases "directionalLightEnabled ?p1")
    case True
    then show ?thesis
      unfolding ui_ready [OF assms(1,2,3)]
      using k assms(4)
      by (cases "hasDirectionalLight (params (app w))") auto
  next
    case False
    then show ?thesis
      unfolding ui_ready [OF assms(1,2,3)]
      using k assms(4)
      by (cases "hasDirectionalLight (params (app w))") auto
  qed
qed

text \<open>
  The theorem at the state after \<^verbatim>\<open>setup\<close>, in a frame in which the user clicks the
  "enabled" checkbox: the sun is removed from the scene.
\<close>

theorem ui_syncs_directional_light_witness:
  "filamesh (app example_world) = Some \<lparr>renderable = 3\<rparr> \<and>
   scene (app example_world) = Some 1 \<and> skylight (app example_world) = Some 4 \<and>
   (light (params (app example_world)) \<in> scene_entities example_world) =
     hasDirectionalLight (params (app example_world)) \<and>
   (\<exists>w'. ui example_engine click_enabled example_world =
      Inr ([SetMaterialInstanceAt 3 0 11, SetMaterialInstanceAt 3 1 11, SetCastShadows 3 True,
            Remove 1 6, SetIntensity 4 10000, SetRotation 4 pi], w') \<and>
      \<not> directionalLightEnabled (params (app w')) \<and>
      \<not> hasDirectionalLight (params (app w')) \<and>
      light (params (app w')) \<notin> scene_entities w')"
proof -
  have h1: "filamesh (app example_world) = Some \<lparr>renderable = 3\<rparr>"
    and h2: "scene (app example_world) = Some 1"
    and h3: "skylight (app example_world) = Some 4"
    by (simp_all add: example_world_eq)
  have h4: "(light (params (app example_world)) \<in> scene_entities example_world) =
       hasDirectionalLight (params (app example_world))"
    by (simp add: example_world_eq setup_params_example)
       (simp add: example_params_def default_params_def)
  from ui_syncs_directional_light [OF h1 h2 h3 h4, of example_engine click_enabled]
  obtain c4 w' where
    u: "ui example_engine click_enabled example_world =
          Inr (fst (updateInstances example_engine
                      (ui_widgets click_enabled (params (app example_world)))) @
               map (\<lambda>i. SetMaterialInstanceAt (renderable \<lparr>renderable = 3\<rparr>) i
                          (snd (updateInstances example_engine
                                  (ui_widgets click_enabled (params (app example_world))))))
                 [0 ..< getPrimitiveCount example_engine (renderable \<lparr>renderable = 3\<rparr>)] @
               [SetCastShadows (renderable \<lparr>renderable = 3\<rparr>)
                  (castShadows (ui_widgets click_enabled (params (app example_world))))] @
               c4 @
               [SetIntensity 4 (iblIntensity (ui_widgets click_enabled (params (app example_world)))),
                SetRotation 4 (iblRotation (ui_widgets click_enabled (params (app example_world))))],
               w')"
    and c: "c4 = (if directionalLightEnabled (ui_widgets click_enabled (params (app example_world))) =
                    hasDirectionalLight (params (app example_world)) then []
                 else if directionalLightEnabled (ui_widgets click_enabled (params (app example_world)))
                 then [AddEntity 1 (light (params (app example_world)))]
                 else [Remove 1 (light (params (app example_world)))])"
    and e: "directionalLightEnabled (params (app w')) =
             directionalLightEnabled (ui_widgets click_enabled (params (app example_world)))"
    and f: "hasDirectionalLight (params (app w')) = directionalLightEnabled (params (app w'))"
    and l: "(light (params (app w')) \<in> scene_entities w') =
             directionalLightEnabled (params (app w'))"
    by blast
  have q: "params (app example_world) =
      (setup_params example_params)\<lparr>light := 6, materialInstance := (\<lambda>i. 10 + i)\<rparr>"
    by (simp add: example_world_eq)
  have en: "directionalLightEnabled (params (app example_world))"
    unfolding q setup_params_example by (simp add: example_params_def default_params_def)
  have p1: "ui_widgets click_enabled (params (app example_world)) =
      (params (app example_world))\<lparr>directionalLightEnabled := False\<rparr>"
    by (simp add: ui_widgets_click_enabled en)
  have vals: "castShadows (params (app example_world)) \<and>
      hasDirectionalLight (params (app example_world)) \<and>
      iblIntensity (params (app example_world)) = 10000 \<and>
      iblRotation (params (app example_world)) = pi \<and>
      light (params (app example_world)) = 6 \<and>
      material ((params (app example_world))\<lparr>directionalLightEnabled := False\<rparr>) = 1 \<and>
      materialInstance (params (app example_world)) = (\<lambda>i. 10 + i)"
    unfolding q setup_params_example
    by (simp add: example_params_def default_params_def material_def uint_consts)
  have c4: "c4 = [Remove 1 6]"
    using c vals unfolding p1 by simp
  have calls: "ui example_engine click_enabled example_world =
      Inr ([SetMaterialInstanceAt 3 0 11, SetMaterialInstanceAt 3 1 11, SetCastShadows 3 True,
            Remove 1 6, SetIntensity 4 10000, SetRotation 4 pi], w')"
    using u vals unfolding p1 c4 by (simp add: example_engine_def numeral_2_eq_2)
  have "\<not> directionalLightEnabled (params (app w'))"
    using e unfolding p1 by simp
  with calls f l h1 h2 h3 h4 show ?thesis by blast
qed

subsection \<open>C9: the aspect ratio is computed without a guard\<close>

text \<open>
  C9 as stated fails in its last part, "for a zero-height viewport the division has no
  defined result". The operands are converted to \<^verbatim>\<open>double\<close> before the division, so for a
  height of zero the quotient is +infinity (NaN when the width is zero as well), nothing
  traps, and \<^verbatim>\<open>animate\<close> goes on to call \<^verbatim>\<open>setProjection\<close> with that value and the vertical
  direction; part 000 then calls \<^verbatim>\<open>setTransform\<close> as on any other frame.
\<close>

theorem zero_height_division_has_a_result:
  "ratio 600 0 = PlusInfinity \<and> ratio 0 0 = NaN \<and>
   animate \<lparr>width = 600, height = 0\<rparr> 2 example_world =
     Inr ([SetProjection 5 45 PlusInfinity (1 / 10) 50 VERTICAL],
          example_world\<lparr>previous := Some 2\<rparr>) \<and>
   animate_part000 (Some 5) (Some \<lparr>renderable = 3\<rparr>) \<lparr>width = 600, height = 0\<rparr> 2 =
     Inr [SetProjection 5 45 PlusInfinity (1 / 10) 50 VERTICAL, SetTransform 3 2]"
proof -
  have r: "ratio 600 0 = PlusInfinity" "ratio 0 0 = NaN"
    by (simp_all add: ratio_cases)
  have c: "cam (app example_world) = Some 5" "previous example_world = None"
    by (simp_all add: example_world_eq)
  show ?thesis
    by (simp add: r c animate_alt animate_part000_alt double_less_def)
qed

text \<open>
  C9 (amended): \<^verbatim>\<open>animate\<close> computes the aspect ratio as the \<^verbatim>\<open>double\<close> quotient of the viewport's
  width by its height, with no guard. The quotient is the number width / height exactly
  when the height is not zero; for a zero height it is +infinity, or NaN when the width
  is zero too. Whatever the quotient is, it is handed to \<^verbatim>\<open>setProjection\<close>; the only fault
  of the computation is a null camera.
\<close>

theorem animate_ratio_unguarded:
  "ratio (width vp) (height vp) =
     (if height vp = 0 then (if width vp = 0 then NaN else PlusInfinity)
      else Finite (real (unat (width vp)) / real (unat (height vp)))) \<and>
   (\<exists>r. ratio (width vp) (height vp) = Finite r) = (height vp \<noteq> 0) \<and>
   adjust_camera (Some c) vp =
     Inr [SetProjection c 45 (ratio (width vp) (height vp)) (1 / 10) 50
            (if double_less (ratio (width vp) (height vp)) 1 then HORIZONTAL else VERTICAL)] \<and>
   adjust_camera None vp = Inl NullPointer"
proof (intro conjI)
  show "ratio (width vp) (height vp) =
     (if height vp = 0 then (if width vp = 0 then NaN else PlusInfinity)
      else Finite (real (unat (width vp)) / real (unat (height vp))))"
    by (rule ratio_cases)
  show "(\<exists>r. ratio (width vp) (height vp) = Finite r) = (height vp \<noteq> 0)"
    by (rule ratio_finite_iff)
  show "adjust_camera (Some c) vp =
     Inr [SetProjection c 45 (ratio (width vp) (height vp)) (1 / 10) 50
            (if double_less (ratio (width vp) (height vp)) 1 then HORIZONTAL else VERTICAL)]"
    by (simp add: adjust_camera_def Let_def)
  show "adjust_camera None vp = Inl NullPointer"
    by (rule adjust_camera_None)
qed

subsection \<open>C10: the projection set on every frame\<close>

text \<open>
  C10: on every frame, whatever the viewport, \<^verbatim>\<open>animate\<close> sets the projection of the camera
  with a field of view of 45 degrees, the aspect ratio \<^verbatim>\<open>double(width) / height\<close>, the near
  plane 0.1 and the far plane 50, and with the horizontal direction if and only if the
  ratio is strictly less than 1, the vertical direction otherwise. The ratio is less
  than 1 exactly when width < height, so a viewport of zero height, whose ratio is
  +infinity or NaN, gets the vertical direction. The web sandbox's \<^verbatim>\<open>animate\<close> makes this one
  call and records the time of its first call; part 000 then sets the transform of the
  mesh. The call is made through the camera pointer of \<^verbatim>\<open>app\<close>, which \<^verbatim>\<open>setup\<close> sets; on a null
  camera the model faults.
\<close>

theorem animate_projection:
  "animate vp now w =
     (case cam (app w) of
        None \<Rightarrow> Inl NullPointer
      | Some c \<Rightarrow>
          Inr ([SetProjection c 45 (ratio (width vp) (height vp)) (1 / 10) 50
                  (if double_less (ratio (width vp) (height vp)) 1 then HORIZONTAL else VERTICAL)],
               w\<lparr>previous := Some (case previous w of None \<Rightarrow> now | Some t \<Rightarrow> t)\<rparr>)) \<and>
   animate_part000 (Some c0) (Some m) vp now =
     Inr [SetProjection c0 45 (ratio (width vp) (height vp)) (1 / 10) 50
            (if double_less (ratio (width vp) (height vp)) 1 then HORIZONTAL else VERTICAL),
          SetTransform (renderable m) now] \<and>
   double_less (ratio (width vp) (height vp)) 1 = (width vp < height vp) \<and>
   ratio (width vp) (height vp) =
     (if height vp = 0 then (if width vp = 0 then NaN else PlusInfinity)
      else Finite (real (unat (width vp)) / real (unat (height vp))))"
  by (intro conjI animate_alt animate_part000_alt ratio_less_one ratio_cases)

text \<open>
  The theorem after \<^verbatim>\<open>setup\<close>, at a 600 by 800, an 800 by 600 and a 300 by 0 viewport, and
  for part 000 at a 600 by 800 viewport.
\<close>

theorem animate_projection_witness:
  "animate \<lparr>width = 600, height = 800\<rparr> 2 example_world =
     Inr ([SetProjection 5 45 (Finite (3 / 4)) (1 / 10) 50 HORIZONTAL],
          example_world\<lparr>previous := Some 2\<rparr>) \<and>
   animate \<lparr>width = 800, height = 600\<rparr> 2 example_world =
     Inr ([SetProjection 5 45 (Finite (4 / 3)) (1 / 10) 50 VERTICAL],
          example_world\<lparr>previous := Some 2\<rparr>) \<and>
   animate \<lparr>width = 300, height = 0\<rparr> 2 example_world =
     Inr ([SetProjection 5 45 PlusInfinity (1 / 10) 50 VERTICAL],
          example_world\<lparr>previous := Some 2\<rparr>) \<and>
   animate_part000 (Some 5) (Some \<lparr>renderable = 3\<rparr>) \<lparr>width = 600, height = 800\<rparr> 2 =
     Inr [SetProjection 5 45 (Finite (3 / 4)) (1 / 10) 50 HORIZONTAL, SetTransform 3 2]"
proof -
  have c: "cam (app example_world) = Some 5" "previous example_world = None"
    by (simp_all add: example_world_eq)
  have r: "ratio 600 800 = Finite (3 / 4)" "ratio 800 600 = Finite (4 / 3)"
    "ratio 300 0 = PlusInfinity"
    by (simp_all add: ratio_cases)
  show ?thesis
    using animate_projection [of "\<lparr>width = 600, height = 800\<rparr>" 2 example_world 5
        "\<lparr>renderable = 3\<rparr>"]
      animate_projection [of "\<lparr>width = 800, height = 600\<rparr>" 2 example_world 5
        "\<lparr>renderable = 3\<rparr>"]
      animate_projection [of "\<lparr>width = 300, height = 0\<rparr>" 2 example_world 5
        "\<lparr>renderable = 3\<rparr>"]
    by (simp add: c r double_less_def)
qed

end
